theory Spec2Isabelle
  imports Main
begin

section \<open>Strings as the widgets use them\<close>

text \<open>
  A JavaScript string is the list of its UTF-16 code units, each an integer. \<open>lit\<close> turns a
  literal of the source into that list.
\<close>

type_synonym jstring = "int list"

definition lit :: "string \<Rightarrow> jstring" where
  "lit s = map of_char s"

text \<open>
  \<open>toLowerCase\<close> and \<open>toUpperCase\<close> follow the Unicode case tables of the engine that runs
  the widget, which are no part of the repository: the handlers take the two functions
  as a parameter.
\<close>

record runtime =
  toLowerCase :: "jstring \<Rightarrow> jstring"
  toUpperCase :: "jstring \<Rightarrow> jstring"

text \<open>
  White space and line terminators of ECMAScript, which \<open>trim\<close> and \<open>parseInt\<close> strip:
  TAB, LF, VT, FF, CR, SP, NBSP, U+1680, U+2000 to U+200A, LS, PS, U+202F, U+205F,
  U+3000 and U+FEFF.
\<close>

definition isWhiteSpace :: "int \<Rightarrow> bool" where
  "isWhiteSpace c =
     (c \<in> set ([0x09, 0x0A, 0x0B, 0x0C, 0x0D, 0x20, 0xA0, 0x1680] @ [0x2000 .. 0x200A] @
                [0x2028, 0x2029, 0x202F, 0x205F, 0x3000, 0xFEFF]))"

definition trimStart :: "jstring \<Rightarrow> jstring" where
  "trimStart s = dropWhile isWhiteSpace s"

definition trim :: "jstring \<Rightarrow> jstring" where
  "trim s = rev (trimStart (rev (trimStart s)))"

text \<open>\<open>s.startsWith(t)\<close> and \<open>s.includes(t)\<close>: \<open>t\<close> occurs in \<open>s\<close> as a contiguous run.\<close>

fun startsWith :: "jstring \<Rightarrow> jstring \<Rightarrow> bool" where
  "startsWith s [] = True"
| "startsWith [] (d # t) = False"
| "startsWith (c # s) (d # t) = (c = d \<and> startsWith s t)"

fun includes_str :: "jstring \<Rightarrow> jstring \<Rightarrow> bool" where
  "includes_str [] t = (t = [])"
| "includes_str (c # s) t = (startsWith (c # s) t \<or> includes_str s t)"

subsection \<open>\<open>parseInt\<close> with no radix argument\<close>

text \<open>
  ECMAScript \<open>parseInt(string)\<close>: leading white space is skipped, one sign is read, a
  \<open>0x\<close> or \<open>0X\<close> prefix selects radix 16 (radix 10 otherwise), and the longest run of
  digits of that radix is the number; what follows the digits is ignored. No digit at all
  gives \<open>NaN\<close>, here \<open>None\<close>. The result is kept as an exact integer: the widget only
  compares it with 1 and with 5 and indexes with it inside that range, where the rounding
  of long digit strings to a double and the sign of zero make no difference.
\<close>

definition digit_value :: "int \<Rightarrow> nat option" where
  "digit_value c =
     map_of (zip (lit ''0123456789abcdef'') [0 ..< 16] @ zip (lit ''ABCDEF'') [10 ..< 16]) c"

definition is_digit :: "nat \<Rightarrow> int \<Rightarrow> bool" where
  "is_digit radix c = (case digit_value c of Some v \<Rightarrow> v < radix | None \<Rightarrow> False)"

definition digits_value :: "nat \<Rightarrow> jstring \<Rightarrow> nat" where
  "digits_value radix z =
     foldl (\<lambda>a c. a * radix + (case digit_value c of Some v \<Rightarrow> v | None \<Rightarrow> 0)) 0 z"

definition parseInt :: "jstring \<Rightarrow> int option" where
  "parseInt inputString =
     (let s = trimStart inputString;
          negative = startsWith s (lit ''-'');
          s1 = (if startsWith s (lit ''-'') \<or> startsWith s (lit ''+'') then tl s else s);
          hex = (startsWith s1 (lit ''0x'') \<or> startsWith s1 (lit ''0X''));
          radix = (if hex then 16 else 10);
          s2 = (if hex then drop 2 s1 else s1);
          z = takeWhile (is_digit radix) s2
      in if z = [] then None
         else Some ((if negative then - 1 else 1) * int (digits_value radix z)))"

section \<open>The chat widget with the inline assessment (App.jsx, \<open>ChatbotWidget\<close>)\<close>

subsection \<open>Data\<close>

text \<open>
  A question of the assessment, as the backend sends it: \<open>q.id\<close> (read as a property
  key), \<open>q.question\<close> and the optional \<open>q.options\<close> object, kept as its entries.
\<close>

record mcq =
  qid :: jstring
  question :: jstring
  options :: "(jstring \<times> jstring) list option"

text \<open>\<open>assessmentState.phase\<close> is \<open>null\<close> or one of three strings.\<close>

datatype phase = Mindset | Domain_selection | Domain_test

text \<open>
  \<open>questions\<close> is what the last response had in its \<open>questions\<close> field: an array, or
  \<open>undefined\<close> (\<open>None\<close>) when the body had no such field.
\<close>

record assessment_state =
  active :: bool
  phase :: "phase option"
  currentQuestion :: nat
  questions :: "mcq list option"
  answers :: "jstring \<rightharpoonup> jstring"
  selectedDomain :: "jstring option"
  mindsetAnswers :: "jstring \<rightharpoonup> jstring"
  domainAnswers :: "jstring \<rightharpoonup> jstring"

text \<open>The object passed to \<open>useState\<close>, and again by \<open>clearChat\<close> and \<open>submitCompleteAssessment\<close>.\<close>

definition initial_assessment :: assessment_state where
  "initial_assessment =
     \<lparr>active = False, phase = None, currentQuestion = 0, questions = Some [],
      answers = Map.empty, selectedDomain = None,
      mindsetAnswers = Map.empty, domainAnswers = Map.empty\<rparr>"

text \<open>
  The body of the evaluation response. \<open>strengths\<close> and \<open>areas_to_develop\<close> are read with
  \<open>.length\<close>, which throws when the field is missing: \<open>None\<close> stands for a missing field.
\<close>

record evaluation =
  fit_level :: jstring
  research_aptitude_score :: nat
  research_aptitude_percentage :: nat
  domain_fit_score :: nat
  domain_fit_percentage :: nat
  overall_assessment :: jstring
  strengths :: "jstring list option"
  areas_to_develop :: "jstring list option"
  domain_specific_feedback :: jstring
  recommendation :: jstring

text \<open>
  Message texts. The fixed texts and the templates of the source are constructors that
  carry the interpolated values; \<open>Plain\<close> is a text taken from the user or the backend.
\<close>

datatype content =
    Plain jstring
  | Greeting_initial
  | Greeting_cleared
  | Start_evaluation
  | Intro "nat option"
  | Load_assessment_error
  | Question_text nat nat jstring "(jstring \<times> jstring) list option"
  | Phase1_complete
  | Domain_prompt "jstring option" "jstring list"
  | Load_domains_error
  | Reprompt
  | Phase3_intro jstring "nat option"
  | Load_domain_questions_error
  | Processing
  | Results_text "jstring option" evaluation
  | Evaluate_error
  | No_answer
  | Connect_error

datatype sender = User | Bot

record message =
  sender :: sender
  text_of :: content
  timestamp :: nat

definition msg :: "sender \<Rightarrow> content \<Rightarrow> nat \<Rightarrow> message" where
  "msg who body t = \<lparr>sender = who, text_of = body, timestamp = t\<rparr>"

text \<open>The component state of \<open>ChatbotWidget\<close> that the handlers read and write.\<close>

record chat =
  messages :: "message list"
  input :: jstring
  loading :: bool
  assessmentState :: assessment_state

definition initial_chat :: "nat \<Rightarrow> chat" where
  "initial_chat t =
     \<lparr>messages = [msg Bot Greeting_initial t], input = [], loading = False,
      assessmentState = initial_assessment\<rparr>"

subsection \<open>Requests and what comes back\<close>

text \<open>
  What \<open>await fetch(...)\<close> gives: the promise rejects (transport failure), or there is a
  response with its status, the outcome of \<open>response.text()\<close> and the outcome of
  \<open>response.json()\<close>; \<open>Inl\<close> carries the message of the error the call rejects with.
\<close>

datatype 'a response =
    Fetch_rejected jstring
  | Response nat "jstring + jstring" "jstring + 'a"

fun ok :: "'a response \<Rightarrow> bool" where
  "ok (Fetch_rejected e) = False"
| "ok (Response status txt js) = (200 \<le> status \<and> status \<le> 299)"

text \<open>
  \<open>const res = await fetch(...); const data = await res.json();\<close> with no look at
  \<open>res.ok\<close>, as the assessment handlers do: \<open>None\<close> when either \<open>await\<close> throws.
\<close>

fun fetch_json :: "'a response \<Rightarrow> 'a option" where
  "fetch_json (Fetch_rejected e) = None"
| "fetch_json (Response status txt (Inl e)) = None"
| "fetch_json (Response status txt (Inr data)) = Some data"

text \<open>
  Bodies of \<open>/api/assessment/start\<close> and \<open>/api/assessment/domain-questions\<close>, and of
  \<open>/api/assessment/domains\<close>: JSON objects whose fields may be missing (\<open>None\<close>), as in
  the body of an error response. A field that is there has the documented shape.
\<close>

record questions_data =
  data_questions :: "mcq list option"
  data_total_questions :: "nat option"

record domains_data =
  data_domains :: "jstring list option"
  data_message :: "jstring option"

text \<open>
  A handler that has reached an \<open>await\<close> or has set a timer leaves a task behind: the
  rest of its body, with the values its closure captured. An \<open>Await\<close> task is one request
  in flight.
\<close>

datatype task =
    Await_assessment_start
  | Timer_askQuestion "mcq list option" nat
  | Timer_showDomainSelection
  | Await_assessment_domains
  | Await_domain_questions assessment_state jstring
  | Await_evaluate assessment_state "jstring \<rightharpoonup> jstring"
  | Await_ask jstring

subsection \<open>Handlers\<close>

text \<open>\<open>handleDomainSelection\<close>, lines 626 to 638: from the input to \<open>selectedDomain\<close>.\<close>

definition domains :: "jstring list" where
  "domains =
     [lit ''Computer Science'', lit ''Biology'', lit ''Physics'', lit ''Chemistry'',
      lit ''Social Sciences'']"

definition domain_matches :: "runtime \<Rightarrow> jstring \<Rightarrow> jstring \<Rightarrow> bool" where
  "domain_matches rt inp d =
     (includes_str (toLowerCase rt d) (toLowerCase rt inp) \<or>
      includes_str (toLowerCase rt inp) (toLowerCase rt d))"

definition select_domain :: "runtime \<Rightarrow> jstring \<Rightarrow> jstring option" where
  "select_domain rt inp =
     (case parseInt inp of
        Some num \<Rightarrow>
          if num \<ge> 1 \<and> num \<le> int (length domains) then Some (domains ! nat (num - 1))
          else find (domain_matches rt inp) domains
      | None \<Rightarrow> find (domain_matches rt inp) domains)"

text \<open>
  The first of the two conditions under which \<open>selectedDomain\<close> is set: \<open>parseInt\<close> reads
  a number from 1 to 5 off the input.
\<close>

definition reads_index :: "jstring \<Rightarrow> bool" where
  "reads_index inp = (case parseInt inp of Some num \<Rightarrow> num \<ge> 1 \<and> num \<le> 5 | None \<Rightarrow> False)"

text \<open>The inputs that are a numeric index as such: the numerals from 1 to 5.\<close>

definition index_numerals :: "jstring list" where
  "index_numerals = [lit ''1'', lit ''2'', lit ''3'', lit ''4'', lit ''5'']"

text \<open>
  \<open>handleDomainSelection\<close> up to its \<open>await\<close>. \<open>!selectedDomain\<close> holds for \<open>undefined\<close>
  and for the empty string.
\<close>

definition handleDomainSelection :: "runtime \<Rightarrow> nat \<Rightarrow> jstring \<Rightarrow> chat \<Rightarrow> chat \<times> task list" where
  "handleDomainSelection rt t inp s =
     (case select_domain rt inp of
        None \<Rightarrow> (s\<lparr>messages := messages s @ [msg Bot Reprompt t]\<rparr>, [])
      | Some d \<Rightarrow>
          if d = [] then (s\<lparr>messages := messages s @ [msg Bot Reprompt t]\<rparr>, [])
          else (s\<lparr>messages := messages s @ [msg User (Plain d) t], loading := True\<rparr>,
                [Await_domain_questions (assessmentState s) d]))"

text \<open>
  The rest of \<open>handleDomainSelection\<close>, run when the request settles. \<open>closure\<close> is the
  \<open>assessmentState\<close> of the render in which the handler was called, \<open>s\<close> the state now.
\<close>

definition handleDomainSelection_resume ::
  "nat \<Rightarrow> assessment_state \<Rightarrow> jstring \<Rightarrow> questions_data response \<Rightarrow> chat \<Rightarrow> chat \<times> task list" where
  "handleDomainSelection_resume t closure d r s =
     (case fetch_json r of
        Some data \<Rightarrow>
          (s\<lparr>assessmentState :=
                closure\<lparr>phase := Some Domain_test, selectedDomain := Some d,
                         currentQuestion := 0, questions := data_questions data,
                         domainAnswers := Map.empty\<rparr>,
             messages := messages s @ [msg Bot (Phase3_intro d (data_total_questions data)) t],
             loading := False\<rparr>,
           [Timer_askQuestion (data_questions data) 0])
      | None \<Rightarrow>
          (s\<lparr>messages := messages s @ [msg Bot Load_domain_questions_error t],
             loading := False\<rparr>, []))"

text \<open>
  \<open>questions[currentQuestion].id\<close> throws a \<open>TypeError\<close> when \<open>questions\<close> is
  \<open>undefined\<close> or the index is not below \<open>questions.length\<close>, before anything has been
  set; so does \<open>questions.length\<close> on \<open>undefined\<close>.
\<close>

datatype error = TypeError

text \<open>\<open>startAssessment\<close> up to its \<open>await\<close>, and the rest of it.\<close>

definition startAssessment :: "nat \<Rightarrow> chat \<Rightarrow> chat \<times> task list" where
  "startAssessment t s =
     (s\<lparr>loading := True, messages := messages s @ [msg User Start_evaluation t]\<rparr>,
      [Await_assessment_start])"

definition startAssessment_resume ::
  "nat \<Rightarrow> questions_data response \<Rightarrow> chat \<Rightarrow> chat \<times> task list" where
  "startAssessment_resume t r s =
     (case fetch_json r of
        Some data \<Rightarrow>
          (s\<lparr>assessmentState :=
                \<lparr>active = True, phase = Some Mindset, currentQuestion = 0,
                 questions = data_questions data, answers = Map.empty,
                 selectedDomain = None, mindsetAnswers = Map.empty,
                 domainAnswers = Map.empty\<rparr>,
             messages := messages s @ [msg Bot (Intro (data_total_questions data)) t],
             loading := False\<rparr>,
           [Timer_askQuestion (data_questions data) 0])
      | None \<Rightarrow>
          (s\<lparr>messages := messages s @ [msg Bot Load_assessment_error t], loading := False\<rparr>,
           []))"

definition askQuestion :: "nat \<Rightarrow> mcq list option \<Rightarrow> nat \<Rightarrow> chat \<Rightarrow> error + chat" where
  "askQuestion t questions_arg index s =
     (case questions_arg of
        None \<Rightarrow> Inl TypeError
      | Some qs \<Rightarrow>
          if index < length qs then
            let q = qs ! index
            in Inr (s\<lparr>messages := messages s @
                  [msg Bot (Question_text (index + 1) (length qs) (question q) (options q)) t]\<rparr>)
          else Inr s)"

definition handleMindsetAnswer ::
  "runtime \<Rightarrow> nat \<Rightarrow> jstring \<Rightarrow> chat \<Rightarrow> error + chat \<times> task list" where
  "handleMindsetAnswer rt t answer s =
     (let a = assessmentState s
      in case questions a of
           None \<Rightarrow> Inl TypeError
         | Some qs \<Rightarrow>
             if currentQuestion a < length qs then
               let questionId = qid (qs ! currentQuestion a);
                   s1 = s\<lparr>messages := messages s @ [msg User (Plain (toUpperCase rt answer)) t]\<rparr>;
                   newAnswers = (mindsetAnswers a)(questionId \<mapsto> toUpperCase rt answer);
                   nextQuestion = currentQuestion a + 1
               in if nextQuestion < length qs then
                    Inr (s1\<lparr>assessmentState :=
                               a\<lparr>currentQuestion := nextQuestion, mindsetAnswers := newAnswers\<rparr>\<rparr>,
                         [Timer_askQuestion (questions a) nextQuestion])
                  else
                    Inr (s1\<lparr>assessmentState :=
                               a\<lparr>mindsetAnswers := newAnswers, phase := Some Domain_selection\<rparr>\<rparr>,
                         [Timer_showDomainSelection])
             else Inl TypeError)"

text \<open>
  \<open>showDomainSelection\<close>, started by the timer of \<open>handleMindsetAnswer\<close>. Building the
  prompt reads \<open>data.domains.map\<close>, which throws inside the \<open>try\<close> when the field is
  missing.
\<close>

definition showDomainSelection :: "nat \<Rightarrow> chat \<Rightarrow> chat \<times> task list" where
  "showDomainSelection t s =
     (s\<lparr>loading := True, messages := messages s @ [msg Bot Phase1_complete t]\<rparr>,
      [Await_assessment_domains])"

definition showDomainSelection_resume ::
  "nat \<Rightarrow> domains_data response \<Rightarrow> chat \<Rightarrow> chat \<times> task list" where
  "showDomainSelection_resume t r s =
     (let reply =
            (case fetch_json r of
               Some data \<Rightarrow>
                 (case data_domains data of
                    Some ds \<Rightarrow>
                      Domain_prompt (data_message data) ds
                  | None \<Rightarrow> Load_domains_error)
             | None \<Rightarrow> Load_domains_error)
      in (s\<lparr>messages := messages s @ [msg Bot reply t], loading := False\<rparr>, []))"

text \<open>
  \<open>submitCompleteAssessment\<close> up to its \<open>await\<close>. \<open>closure\<close> is the \<open>assessmentState\<close>
  of the render it is called in, which the request body and the results text read.
\<close>

definition submitCompleteAssessment ::
  "nat \<Rightarrow> assessment_state \<Rightarrow> (jstring \<rightharpoonup> jstring) \<Rightarrow> chat \<Rightarrow> chat \<times> task list" where
  "submitCompleteAssessment t closure domAnswers s =
     (s\<lparr>loading := True, messages := messages s @ [msg Bot Processing t]\<rparr>,
      [Await_evaluate closure domAnswers])"

text \<open>
  The rest of \<open>submitCompleteAssessment\<close>: the \<open>try\<close> block ends in the \<open>catch\<close> when
  the request or \<open>res.json()\<close> rejects or when building the results text throws; what
  follows the \<open>try\<close> statement runs either way.
\<close>

definition submitCompleteAssessment_resume ::
  "nat \<Rightarrow> assessment_state \<Rightarrow> evaluation response \<Rightarrow> chat \<Rightarrow> chat \<times> task list" where
  "submitCompleteAssessment_resume t closure r s =
     (let reply =
            (case fetch_json r of
               Some result \<Rightarrow>
                 if strengths result \<noteq> None \<and> areas_to_develop result \<noteq> None
                 then Results_text (selectedDomain closure) result
                 else Evaluate_error
             | None \<Rightarrow> Evaluate_error)
      in (s\<lparr>messages := messages s @ [msg Bot reply t], loading := False,
            assessmentState := initial_assessment\<rparr>, []))"

text \<open>\<open>handleDomainAnswer\<close>; \<open>t'\<close> is the time \<open>submitCompleteAssessment\<close> reads.\<close>

definition handleDomainAnswer ::
  "runtime \<Rightarrow> nat \<Rightarrow> nat \<Rightarrow> jstring \<Rightarrow> chat \<Rightarrow> error + chat \<times> task list" where
  "handleDomainAnswer rt t t' answer s =
     (let a = assessmentState s
      in case questions a of
           None \<Rightarrow> Inl TypeError
         | Some qs \<Rightarrow>
             if currentQuestion a < length qs then
               let questionId = qid (qs ! currentQuestion a);
                   s1 = s\<lparr>messages := messages s @ [msg User (Plain (toUpperCase rt answer)) t]\<rparr>;
                   newAnswers = (domainAnswers a)(questionId \<mapsto> toUpperCase rt answer);
                   nextQuestion = currentQuestion a + 1
               in if nextQuestion < length qs then
                    Inr (s1\<lparr>assessmentState :=
                               a\<lparr>currentQuestion := nextQuestion, domainAnswers := newAnswers\<rparr>\<rparr>,
                         [Timer_askQuestion (questions a) nextQuestion])
                  else
                    Inr (submitCompleteAssessment t' a newAnswers
                           (s1\<lparr>assessmentState := a\<lparr>domainAnswers := newAnswers\<rparr>\<rparr>))
             else Inl TypeError)"

text \<open>Body of \<open>/api/ask\<close>: \<open>data.answer\<close>, which may be missing.\<close>

record ask_data =
  data_answer :: "jstring option"

text \<open>
  \<open>sendMessage\<close> up to its \<open>await\<close>. A \<open>TypeError\<close> of a phase handler leaves the
  function before \<open>setInput("")\<close>.
\<close>

definition sendMessage :: "runtime \<Rightarrow> nat \<Rightarrow> nat \<Rightarrow> chat \<Rightarrow> error + chat \<times> task list" where
  "sendMessage rt t t' s =
     (if trim (input s) = [] \<or> loading s then Inr (s, [])
      else if active (assessmentState s) then
        (case phase (assessmentState s) of
           Some Mindset \<Rightarrow>
             (case handleMindsetAnswer rt t (input s) s of
                Inl e \<Rightarrow> Inl e
              | Inr (s', ts) \<Rightarrow> Inr (s'\<lparr>input := []\<rparr>, ts))
         | Some Domain_selection \<Rightarrow>
             (case handleDomainSelection rt t (input s) s of
                (s', ts) \<Rightarrow> Inr (s'\<lparr>input := []\<rparr>, ts))
         | Some Domain_test \<Rightarrow>
             (case handleDomainAnswer rt t t' (input s) s of
                Inl e \<Rightarrow> Inl e
              | Inr (s', ts) \<Rightarrow> Inr (s'\<lparr>input := []\<rparr>, ts))
         | None \<Rightarrow> Inr (s\<lparr>input := []\<rparr>, []))
      else
        Inr (s\<lparr>messages := messages s @ [msg User (Plain (trim (input s))) t],
               input := [], loading := True\<rparr>,
             [Await_ask (trim (input s))]))"

text \<open>The rest of \<open>sendMessage\<close>, which does check \<open>res.ok\<close>.\<close>

definition sendMessage_resume :: "nat \<Rightarrow> ask_data response \<Rightarrow> chat \<Rightarrow> chat \<times> task list" where
  "sendMessage_resume t r s =
     (let reply =
            (if ok r then
               (case fetch_json r of
                  Some data \<Rightarrow>
                    (case data_answer data of
                       Some a \<Rightarrow> if a = [] then No_answer else Plain a
                     | None \<Rightarrow> No_answer)
                | None \<Rightarrow> Connect_error)
             else Connect_error)
      in (s\<lparr>messages := messages s @ [msg Bot reply t], loading := False\<rparr>, []))"

definition clearChat :: "nat \<Rightarrow> chat \<Rightarrow> chat" where
  "clearChat t s =
     s\<lparr>messages := [msg Bot Greeting_cleared t], assessmentState := initial_assessment\<rparr>"

text \<open>The two quick actions (their \<open>query\<close> and \<open>action\<close>; neither has an \<open>action\<close>).\<close>

definition quickActions :: "(jstring \<times> jstring option) list" where
  "quickActions =
     [(lit ''Tell me about your research programs'', None),
      (lit ''What are your publication opportunities?'', None)]"

definition handleQuickAction :: "nat \<Rightarrow> jstring \<times> jstring option \<Rightarrow> chat \<Rightarrow> chat \<times> task list" where
  "handleQuickAction t action s =
     (if snd action = Some (lit ''assessment'') then startAssessment t s
      else (s\<lparr>input := fst action\<rparr>, []))"

subsection \<open>Events of the chat widget\<close>

text \<open>
  The widget runs one handler at a time: a user action or the rest of a handler whose
  request has settled or whose timer has fired. A configuration is the component state
  with the tasks still to run. Each user action carries the condition under which its
  control is rendered and enabled: the assessment button and the quick actions only
  while \<open>messages.length === 1 && !loading\<close>, the input field only while \<open>!loading\<close>;
  \<open>sendMessage\<close> (button or Enter key) and \<open>clearChat\<close> check for themselves or not at
  all. Timers may fire after any delay. The panel is taken to be open. When a phase
  handler throws inside \<open>sendMessage\<close> nothing has been set yet, and the configuration
  stays as it was; an error thrown in a timer callback ends that callback with nothing
  set.
\<close>

datatype reply =
    Reply_questions "questions_data response"
  | Reply_domains "domains_data response"
  | Reply_evaluation "evaluation response"
  | Reply_ask "ask_data response"

datatype event =
    Click_startAssessment nat
  | Click_quickAction nat nat
  | Change_input jstring
  | Send nat nat
  | Click_clearChat nat
  | Run_task nat nat "reply option"

fun run_task :: "nat \<Rightarrow> task \<Rightarrow> reply option \<Rightarrow> chat \<Rightarrow> (chat \<times> task list) option" where
  "run_task t Await_assessment_start (Some (Reply_questions r)) s =
     Some (startAssessment_resume t r s)"
| "run_task t (Timer_askQuestion qs i) None s =
     (case askQuestion t qs i s of Inl e \<Rightarrow> Some (s, []) | Inr s' \<Rightarrow> Some (s', []))"
| "run_task t Timer_showDomainSelection None s = Some (showDomainSelection t s)"
| "run_task t Await_assessment_domains (Some (Reply_domains r)) s =
     Some (showDomainSelection_resume t r s)"
| "run_task t (Await_domain_questions closure d) (Some (Reply_questions r)) s =
     Some (handleDomainSelection_resume t closure d r s)"
| "run_task t (Await_evaluate closure da) (Some (Reply_evaluation r)) s =
     Some (submitCompleteAssessment_resume t closure r s)"
| "run_task t (Await_ask q) (Some (Reply_ask r)) s = Some (sendMessage_resume t r s)"
| "run_task t tk rep s = None"

fun chat_step :: "runtime \<Rightarrow> event \<Rightarrow> chat \<times> task list \<Rightarrow> (chat \<times> task list) option" where
  "chat_step rt (Click_startAssessment t) (s, ts) =
     (if length (messages s) = 1 \<and> \<not> loading s then
        (case startAssessment t s of (s', new) \<Rightarrow> Some (s', ts @ new))
      else None)"
| "chat_step rt (Click_quickAction i t) (s, ts) =
     (if length (messages s) = 1 \<and> \<not> loading s \<and> i < length quickActions then
        (case handleQuickAction t (quickActions ! i) s of (s', new) \<Rightarrow> Some (s', ts @ new))
      else None)"
| "chat_step rt (Change_input v) (s, ts) =
     (if \<not> loading s then Some (s\<lparr>input := v\<rparr>, ts) else None)"
| "chat_step rt (Send t t') (s, ts) =
     (case sendMessage rt t t' s of
        Inl e \<Rightarrow> Some (s, ts)
      | Inr (s', new) \<Rightarrow> Some (s', ts @ new))"
| "chat_step rt (Click_clearChat t) (s, ts) = Some (clearChat t s, ts)"
| "chat_step rt (Run_task i t rep) (s, ts) =
     (if i < length ts then
        (case run_task t (ts ! i) rep s of
           Some (s', new) \<Rightarrow> Some (s', take i ts @ drop (Suc i) ts @ new)
         | None \<Rightarrow> None)
      else None)"

inductive reachable :: "runtime \<Rightarrow> chat \<times> task list \<Rightarrow> bool" for rt :: runtime where
  reachable_init: "reachable rt (initial_chat t, [])"
| reachable_step: "reachable rt c \<Longrightarrow> chat_step rt e c = Some c' \<Longrightarrow> reachable rt c'"

section \<open>The quiz modal (PsychometricQuiz.jsx)\<close>

subsection \<open>Data\<close>

record quiz_question =
  question_num :: nat
  stem :: jstring
  quiz_options :: "jstring list"

text \<open>
  Response bodies, each a JSON object whose fields may be missing. \<open>start_success\<close> and
  \<open>results_success\<close> are the truth values of \<open>data.success\<close>; \<open>completed\<close> is
  \<open>Some True\<close> for \<open>=== true\<close>, \<open>Some False\<close> for \<open>=== false\<close>.
\<close>

record start_data =
  start_success :: bool
  start_message :: "jstring option"
  session_id :: "jstring option"
  total_questions :: nat
  first_question :: "quiz_question option"

record answer_data =
  completed :: "bool option"
  next_question :: "quiz_question option"

record score =
  aptitude_score :: nat
  accuracy :: nat
  correct :: nat
  total :: nat
  level :: jstring
  fit :: jstring

record results_data =
  results_success :: bool
  score_data :: "score option"
  feedback :: "jstring option"

record form_data =
  age :: "int option"
  education :: jstring
  domain :: jstring

datatype stage = Setup | Quiz | Results

text \<open>
  The component state. \<open>quizQuestion\<close> is the source's \<open>currentQuestion\<close> and
  \<open>quizLoading\<close> its \<open>loading\<close>, renamed apart from the chat widget's fields.
\<close>

record quiz =
  step :: stage
  formData :: form_data
  quizData :: "start_data option"
  quizQuestion :: "quiz_question option"
  selectedAnswer :: "nat option"
  questionNum :: nat
  results :: "results_data option"
  quizLoading :: bool
  sessionId :: "jstring option"

definition initial_quiz :: quiz where
  "initial_quiz =
     \<lparr>step = Setup,
      formData = \<lparr>age = Some 20, education = lit ''Undergraduate'', domain = lit ''Computer Science''\<rparr>,
      quizData = None, quizQuestion = None, selectedAnswer = None, questionNum = 1,
      results = None, quizLoading = False, sessionId = None\<rparr>"

text \<open>
  The errors the handlers throw or meet, by the template of their message, and the
  alerts the \<open>catch\<close> blocks raise. \<open>Runtime_error\<close> is an error that \<open>fetch\<close>,
  \<open>text()\<close> or \<open>json()\<close> rejects with.
\<close>

datatype thrown =
    Http_error nat jstring
  | Results_http_error nat jstring
  | Invalid_results_format
  | Unexpected_response answer_data
  | Runtime_error jstring

datatype alert =
    Failed_to_start_quiz jstring
  | Error_starting_quiz thrown
  | Error_submitting thrown

datatype request =
    Post_quiz_start form_data
  | Post_quiz_answer nat nat "jstring option"
  | Get_quiz_results "jstring option"

text \<open>A handler of the modal waiting for its request; the request is in flight.\<close>

datatype quiz_task =
    Await_quiz_start form_data
  | Await_quiz_answer nat nat "jstring option"
  | Await_quiz_results "jstring option"

fun request_of :: "quiz_task \<Rightarrow> request" where
  "request_of (Await_quiz_start f) = Post_quiz_start f"
| "request_of (Await_quiz_answer a n sid) = Post_quiz_answer a n sid"
| "request_of (Await_quiz_results sid) = Get_quiz_results sid"

subsection \<open>Handlers\<close>

text \<open>
  \<open>if (!response.ok) { const errorText = await response.text(); throw ... }
  const data = await response.json();\<close> after \<open>await fetch(...)\<close>: the parsed body, or
  the error that reaches the \<open>catch\<close>. \<open>mk\<close> builds the error thrown for a bad status.
\<close>

fun checked_json :: "(nat \<Rightarrow> jstring \<Rightarrow> thrown) \<Rightarrow> 'a response \<Rightarrow> thrown + 'a" where
  "checked_json mk (Fetch_rejected e) = Inl (Runtime_error e)"
| "checked_json mk (Response status txt js) =
     (if 200 \<le> status \<and> status \<le> 299 then
        (case js of Inl e \<Rightarrow> Inl (Runtime_error e) | Inr data \<Rightarrow> Inr data)
      else
        (case txt of Inl e \<Rightarrow> Inl (Runtime_error e) | Inr errorText \<Rightarrow> Inl (mk status errorText)))"

definition startQuiz :: "quiz \<Rightarrow> quiz \<times> alert list \<times> quiz_task list" where
  "startQuiz s = (s\<lparr>quizLoading := True\<rparr>, [], [Await_quiz_start (formData s)])"

definition startQuiz_resume :: "start_data response \<Rightarrow> quiz \<Rightarrow> quiz \<times> alert list \<times> quiz_task list" where
  "startQuiz_resume r s =
     (case checked_json Http_error r of
        Inr data \<Rightarrow>
          if start_success data then
            (s\<lparr>quizData := Some data, quizQuestion := first_question data, questionNum := 1,
               sessionId := session_id data, step := Quiz, quizLoading := False\<rparr>, [], [])
          else
            (s\<lparr>quizLoading := False\<rparr>,
             [Failed_to_start_quiz
                (case start_message data of
                   Some m \<Rightarrow> if m = [] then lit ''Unknown error'' else m
                 | None \<Rightarrow> lit ''Unknown error'')], [])
      | Inl e \<Rightarrow> (s\<lparr>quizLoading := False\<rparr>, [Error_starting_quiz e], []))"

definition submitAnswer :: "quiz \<Rightarrow> quiz \<times> alert list \<times> quiz_task list" where
  "submitAnswer s =
     (case selectedAnswer s of
        None \<Rightarrow> (s, [], [])
      | Some a \<Rightarrow>
          (s\<lparr>quizLoading := True\<rparr>, [], [Await_quiz_answer a (questionNum s) (sessionId s)]))"

text \<open>
  The rest of \<open>submitAnswer\<close> once the answer request has settled; \<open>sid\<close> is the
  \<open>sessionId\<close> its closure holds. With \<open>completed === true\<close> it goes on to the results
  request and \<open>loading\<close> stays set.
\<close>

definition submitAnswer_resume ::
  "jstring option \<Rightarrow> answer_data response \<Rightarrow> quiz \<Rightarrow> quiz \<times> alert list \<times> quiz_task list" where
  "submitAnswer_resume sid r s =
     (case checked_json Http_error r of
        Inr data \<Rightarrow>
          if completed data = Some True then (s, [], [Await_quiz_results sid])
          else
            (case next_question data of
               Some q \<Rightarrow>
                 if completed data = Some False then
                   (s\<lparr>quizQuestion := Some q, questionNum := question_num q,
                      selectedAnswer := None, quizLoading := False\<rparr>, [], [])
                 else (s\<lparr>quizLoading := False\<rparr>, [Error_submitting (Unexpected_response data)], [])
             | None \<Rightarrow>
                 (s\<lparr>quizLoading := False\<rparr>, [Error_submitting (Unexpected_response data)], []))
      | Inl e \<Rightarrow> (s\<lparr>quizLoading := False\<rparr>, [Error_submitting e], []))"

definition submitAnswer_results ::
  "results_data response \<Rightarrow> quiz \<Rightarrow> quiz \<times> alert list \<times> quiz_task list" where
  "submitAnswer_results r s =
     (case checked_json Results_http_error r of
        Inr resultsData \<Rightarrow>
          if results_success resultsData \<and> score_data resultsData \<noteq> None then
            (s\<lparr>results := Some resultsData, step := Results, quizLoading := False\<rparr>, [], [])
          else (s\<lparr>quizLoading := False\<rparr>, [Error_submitting Invalid_results_format], [])
      | Inl e \<Rightarrow> (s\<lparr>quizLoading := False\<rparr>, [Error_submitting e], []))"


definition submitAnswer_run ::
  "answer_data response \<Rightarrow> results_data response \<Rightarrow> quiz \<Rightarrow> quiz \<times> alert list \<times> request list" where
  "submitAnswer_run ra rr s =
     (case submitAnswer s of
        (s1, al1, []) \<Rightarrow> (s1, al1, [])
      | (s1, al1, tk # ts1) \<Rightarrow>
          (case submitAnswer_resume (sessionId s) ra s1 of
             (s2, al2, []) \<Rightarrow> (s2, al1 @ al2, [request_of tk])
           | (s2, al2, tk' # ts2) \<Rightarrow>
               (case submitAnswer_results rr s2 of
                  (s3, al3, ts3) \<Rightarrow> (s3, al1 @ al2 @ al3, [request_of tk, request_of tk']))))"

subsection \<open>Events of the modal\<close>

text \<open>
  The buttons as rendered: \<open>Start Quiz\<close> in the setup step, \<open>disabled={loading}\<close>; the
  option buttons and the submit button in the quiz step while there are a question and
  quiz data, the submit button \<open>disabled={selectedAnswer === null || loading}\<close>.
\<close>

datatype quiz_reply =
    Reply_start "start_data response"
  | Reply_answer "answer_data response"
  | Reply_results "results_data response"

datatype quiz_event =
    Change_formData form_data
  | Click_startQuiz
  | Click_option nat
  | Click_submit
  | Settle nat quiz_reply

definition quiz_shown :: "quiz \<Rightarrow> bool" where
  "quiz_shown s = (step s = Quiz \<and> quizQuestion s \<noteq> None \<and> quizData s \<noteq> None)"

fun settle :: "quiz_task \<Rightarrow> quiz_reply \<Rightarrow> quiz \<Rightarrow> (quiz \<times> alert list \<times> quiz_task list) option" where
  "settle (Await_quiz_start f) (Reply_start r) s = Some (startQuiz_resume r s)"
| "settle (Await_quiz_answer a n sid) (Reply_answer r) s = Some (submitAnswer_resume sid r s)"
| "settle (Await_quiz_results sid) (Reply_results r) s = Some (submitAnswer_results r s)"
| "settle tk rep s = None"

fun quiz_step :: "quiz_event \<Rightarrow> quiz \<times> quiz_task list \<Rightarrow> (quiz \<times> quiz_task list) option" where
  "quiz_step (Change_formData f) (s, ts) =
     (if step s = Setup then Some (s\<lparr>formData := f\<rparr>, ts) else None)"
| "quiz_step Click_startQuiz (s, ts) =
     (if step s = Setup \<and> \<not> quizLoading s then
        (case startQuiz s of (s', al, new) \<Rightarrow> Some (s', ts @ new))
      else None)"
| "quiz_step (Click_option i) (s, ts) =
     (if quiz_shown s \<and> i < length (quiz_options (the (quizQuestion s))) then
        Some (s\<lparr>selectedAnswer := Some i\<rparr>, ts)
      else None)"
| "quiz_step Click_submit (s, ts) =
     (if quiz_shown s \<and> \<not> (selectedAnswer s = None \<or> quizLoading s) then
        (case submitAnswer s of (s', al, new) \<Rightarrow> Some (s', ts @ new))
      else None)"
| "quiz_step (Settle i rep) (s, ts) =
     (if i < length ts then
        (case settle (ts ! i) rep s of
           Some (s', al, new) \<Rightarrow> Some (s', take i ts @ drop (Suc i) ts @ new)
         | None \<Rightarrow> None)
      else None)"

inductive quiz_reachable :: "quiz \<times> quiz_task list \<Rightarrow> bool" where
  quiz_init: "quiz_reachable (initial_quiz, [])"
| quiz_next: "quiz_reachable c \<Longrightarrow> quiz_step e c = Some c' \<Longrightarrow> quiz_reachable c'"

fun run_events :: "runtime \<Rightarrow> event list \<Rightarrow> chat \<times> task list \<Rightarrow> (chat \<times> task list) option" where
  "run_events rt [] c = Some c"
| "run_events rt (e # es) c =
     (case chat_step rt e c of Some c' \<Rightarrow> run_events rt es c' | None \<Rightarrow> None)"

text \<open>The tasks that are a request in flight, and those that are an evaluation request.\<close>

fun in_flight :: "task \<Rightarrow> bool" where
  "in_flight (Timer_askQuestion qs i) = False"
| "in_flight Timer_showDomainSelection = False"
| "in_flight tk = True"

fun is_evaluate :: "task \<Rightarrow> bool" where
  "is_evaluate (Await_evaluate closure da) = True"
| "is_evaluate tk = False"

text \<open>The \<open>mindset_answers\<close> in the body of an evaluation request.\<close>

fun posted_mindset :: "task \<Rightarrow> jstring \<rightharpoonup> jstring" where
  "posted_mindset (Await_evaluate closure da) = mindsetAnswers closure"
| "posted_mindset tk = Map.empty"

section \<open>Invariants\<close>

text \<open>At most one request of the modal in flight, and none unless \<open>loading\<close> is set.\<close>

definition one_in_flight :: "quiz \<times> quiz_task list \<Rightarrow> bool" where
  "one_in_flight c = (length (snd c) \<le> 1 \<and> (snd c \<noteq> [] \<longrightarrow> quizLoading (fst c)))"

text \<open>
  The question the modal holds for an answer: the one in its question slot while the
  quiz step is shown. A selection, when there is one, is an option of that question; the
  other two conjuncts of \<open>selection_kept\<close> carry this through the start of the quiz.
\<close>

definition quiz_unanswered :: "quiz \<Rightarrow> quiz_question list" where
  "quiz_unanswered q =
     (if step q = Quiz then (case quizQuestion q of Some x \<Rightarrow> [x] | None \<Rightarrow> []) else [])"

definition selection_fits :: "quiz \<Rightarrow> bool" where
  "selection_fits q =
     (case selectedAnswer q of
        None \<Rightarrow> True
      | Some i \<Rightarrow> (case quizQuestion q of Some x \<Rightarrow> i < length (quiz_options x) | None \<Rightarrow> False))"

fun is_start :: "quiz_task \<Rightarrow> bool" where
  "is_start (Await_quiz_start f) = True"
| "is_start tk = False"

definition selection_kept :: "quiz \<times> quiz_task list \<Rightarrow> bool" where
  "selection_kept c =
     (selection_fits (fst c) \<and>
      (step (fst c) = Setup \<longrightarrow> selectedAnswer (fst c) = None) \<and>
      (\<forall>tk \<in> set (snd c). is_start tk \<longrightarrow> step (fst c) = Setup))"

text \<open>While questions are being asked and there are questions, the index points at one.\<close>

definition index_in_range :: "assessment_state \<Rightarrow> bool" where
  "index_in_range a =
     (case questions a of
        None \<Rightarrow> True
      | Some qs \<Rightarrow>
          (phase a = Some Mindset \<or> phase a = Some Domain_test) \<and> qs \<noteq> [] \<longrightarrow>
            currentQuestion a < length qs)"

text \<open>
  The questions the chat widget has put so far in the running phase (those up to the
  current index) that have no answer recorded in the map of that phase, and the
  invariant behind it: every question before the current index has one.
\<close>

definition phase_answers :: "assessment_state \<Rightarrow> jstring \<rightharpoonup> jstring" where
  "phase_answers a =
     (case phase a of
        Some Mindset \<Rightarrow> mindsetAnswers a
      | Some Domain_test \<Rightarrow> domainAnswers a
      | _ \<Rightarrow> Map.empty)"

definition asked_unanswered :: "assessment_state \<Rightarrow> mcq list" where
  "asked_unanswered a =
     (if phase a = Some Mindset \<or> phase a = Some Domain_test then
        (case questions a of
           Some qs \<Rightarrow>
             filter (\<lambda>q. phase_answers a (qid q) = None) (take (Suc (currentQuestion a)) qs)
         | None \<Rightarrow> [])
      else [])"

definition answered_before :: "assessment_state \<Rightarrow> bool" where
  "answered_before a =
     (phase a = Some Mindset \<or> phase a = Some Domain_test \<longrightarrow>
        (case questions a of
           Some qs \<Rightarrow> \<forall>q \<in> set (take (currentQuestion a) qs). phase_answers a (qid q) \<noteq> None
         | None \<Rightarrow> True))"

text \<open>
  The option letters of a question, and what the handlers in fact store: the upper
  case of an input that \<open>sendMessage\<close> accepts, one that is not blank. \<open>task_upper\<close> asks
  the same of the state a pending domain-questions request will write back.
\<close>

definition option_letters :: "jstring list" where
  "option_letters = [lit ''A'', lit ''B'', lit ''C'', lit ''D'']"

definition upper_of_input :: "runtime \<Rightarrow> jstring \<Rightarrow> bool" where
  "upper_of_input rt v = (\<exists>inp. trim inp \<noteq> [] \<and> v = toUpperCase rt inp)"

definition answers_upper :: "runtime \<Rightarrow> assessment_state \<Rightarrow> bool" where
  "answers_upper rt a =
     (\<forall>v \<in> ran (mindsetAnswers a) \<union> ran (domainAnswers a). upper_of_input rt v)"

fun task_upper :: "runtime \<Rightarrow> task \<Rightarrow> bool" where
  "task_upper rt (Await_domain_questions closure d) = answers_upper rt closure"
| "task_upper rt tk = True"

definition config_upper :: "runtime \<Rightarrow> chat \<times> task list \<Rightarrow> bool" where
  "config_upper rt c =
     (answers_upper rt (assessmentState (fst c)) \<and> (\<forall>tk \<in> set (snd c). task_upper rt tk))"

section \<open>The session client as the specification words it\<close>




section \<open>Sample data\<close>

text \<open>
  The case mappings of ECMAScript on strings whose code units are below 256 (other code
  units are left alone here, not so by an engine); the concrete runs below use them on
  such strings. \<open>lowers_ascii\<close> says of any runtime what every engine does to an ASCII
  string.
\<close>

definition latin1_lower :: "int \<Rightarrow> int" where
  "latin1_lower c =
     (if (65 \<le> c \<and> c \<le> 90) \<or> (192 \<le> c \<and> c \<le> 222 \<and> c \<noteq> 215) then c + 32 else c)"

definition latin1_upper :: "int \<Rightarrow> int list" where
  "latin1_upper c =
     (if (97 \<le> c \<and> c \<le> 122) \<or> (224 \<le> c \<and> c \<le> 254 \<and> c \<noteq> 247) then [c - 32]
      else if c = 223 then [83, 83]
      else if c = 255 then [376]
      else if c = 181 then [924]
      else [c])"

definition latin1_case :: runtime where
  "latin1_case =
     \<lparr>toLowerCase = map latin1_lower, toUpperCase = (\<lambda>s. concat (map latin1_upper s))\<rparr>"

definition ascii_lower :: "int \<Rightarrow> int" where
  "ascii_lower c = (if 65 \<le> c \<and> c \<le> 90 then c + 32 else c)"

definition lowers_ascii :: "runtime \<Rightarrow> bool" where
  "lowers_ascii rt = (\<forall>s. (\<forall>c \<in> set s. 0 \<le> c \<and> c < 128) \<longrightarrow> toLowerCase rt s = map ascii_lower s)"

text \<open>Two questions and widget states in the middle of an assessment, for concrete runs.\<close>

definition sample_questions :: "mcq list" where
  "sample_questions =
     [\<lparr>qid = lit ''q1'', question = lit ''Do you plan before you start?'', options = None\<rparr>,
      \<lparr>qid = lit ''q2'', question = lit ''Do you read widely?'', options = None\<rparr>]"

definition sample_chat :: "phase \<Rightarrow> nat \<Rightarrow> jstring \<Rightarrow> chat" where
  "sample_chat ph i inp =
     \<lparr>messages = [msg Bot Greeting_initial 0], input = inp, loading = False,
      assessmentState =
        \<lparr>active = True, phase = Some ph, currentQuestion = i, questions = Some sample_questions,
         answers = Map.empty, selectedDomain = None, mindsetAnswers = Map.empty,
         domainAnswers = Map.empty\<rparr>\<rparr>"

text \<open>A quiz in progress with an option selected, and an answer response that completes it.\<close>

definition sample_quiz :: quiz where
  "sample_quiz =
     initial_quiz\<lparr>step := Quiz,
       quizData := Some \<lparr>start_success = True, start_message = None, session_id = Some (lit ''s1''),
                         total_questions = 5, first_question = None\<rparr>,
       quizQuestion := Some \<lparr>question_num = 5, stem = lit ''Which one?'',
                              quiz_options = [lit ''a'', lit ''b'', lit ''c'']\<rparr>,
       selectedAnswer := Some 2, questionNum := 5, sessionId := Some (lit ''s1'')\<rparr>"

definition sample_completed :: "answer_data response" where
  "sample_completed = Response 200 (Inr []) (Inr \<lparr>completed = Some True, next_question = None\<rparr>)"

text \<open>Replies of the backend: questions, the domain list, an error body, a lost request.\<close>

definition reply_questions :: "mcq list \<Rightarrow> reply option" where
  "reply_questions qs =
     Some (Reply_questions (Response 200 (Inr [])
       (Inr \<lparr>data_questions = Some qs, data_total_questions = Some (length qs)\<rparr>)))"

definition reply_domains :: "reply option" where
  "reply_domains =
     Some (Reply_domains (Response 200 (Inr [])
       (Inr \<lparr>data_domains = Some domains, data_message = Some (lit ''Choose a domain'')\<rparr>)))"

definition error_body :: "questions_data response" where
  "error_body =
     Response 500 (Inr (lit ''{\"detail\":\"Internal Server Error\"}''))
       (Inr \<lparr>data_questions = None, data_total_questions = None\<rparr>)"

definition reply_lost :: "reply option" where
  "reply_lost = Some (Reply_evaluation (Fetch_rejected (lit ''Failed to fetch'')))"

text \<open>
  A run of the widget: the assessment is started and its two questions arrive, then the
  user types hello (\<open>sample_config\<close>) and sends it (\<open>hello_config\<close>).
\<close>

definition sample_events :: "event list" where
  "sample_events =
     [Click_startAssessment 1, Run_task 0 2 (reply_questions sample_questions),
      Change_input (lit ''hello'')]"

definition sample_config :: "chat \<times> task list" where
  "sample_config = the (run_events latin1_case sample_events (initial_chat 0, []))"

definition hello_config :: "chat \<times> task list" where
  "hello_config = the (run_events latin1_case (sample_events @ [Send 3 4]) (initial_chat 0, []))"

text \<open>
  A run with one mindset question and one domain question in which the user names the
  domain before the timer of \<open>handleMindsetAnswer\<close> starts \<open>showDomainSelection\<close>: the
  domain questions arrive and are answered while the domain list is still on its way,
  and when the list arrives the user sends an answer again.
\<close>

definition race_events :: "event list" where
  "race_events =
     [Click_startAssessment 1, Run_task 0 2 (reply_questions [hd sample_questions]),
      Change_input (lit ''a''), Send 3 3,
      Change_input (lit ''bio''), Send 4 4,
      Run_task 1 5 None,
      Run_task 1 6 (reply_questions [last sample_questions]),
      Change_input (lit ''c''), Send 7 8,
      Run_task 1 9 reply_domains,
      Change_input (lit ''c''), Send 10 11]"

definition race_config :: "nat \<Rightarrow> chat \<times> task list" where
  "race_config n = the (run_events latin1_case (take n race_events) (initial_chat 0, []))"

text \<open>
  A run in which the domain is named twice, the second time after the domain list has
  arrived and while the first request for domain questions is still on its way. The
  second request is answered, the evaluation fails, and then the first request settles.
\<close>

definition stale_events :: "event list" where
  "stale_events =
     [Click_startAssessment 1, Run_task 0 2 (reply_questions [hd sample_questions]),
      Change_input (lit ''a''), Send 3 3,
      Change_input (lit ''bio''), Send 4 4,
      Run_task 1 5 None,
      Run_task 2 6 reply_domains,
      Change_input (lit ''bio''), Send 7 7,
      Run_task 2 8 (reply_questions [last sample_questions]),
      Change_input (lit ''c''), Send 9 10,
      Run_task 3 11 reply_lost,
      Run_task 1 12 (reply_questions [last sample_questions]),
      Change_input (lit ''c''), Send 13 14]"

definition stale_config :: "nat \<Rightarrow> chat \<times> task list" where
  "stale_config n = the (run_events latin1_case (take n stale_events) (initial_chat 0, []))"

section \<open>Properties of the chat widget\<close>

subsection \<open>Resolving the domain\<close>

lemma domains_nonempty: "d \<in> set domains \<Longrightarrow> d \<noteq> []"
  by (auto simp: domains_def lit_def)

lemma find_domains_None: "(find P domains = None) = (\<not> list_ex P domains)"
  by (auto simp: find_None_iff list_ex_iff)

lemma find_in_set: "find P xs = Some x \<Longrightarrow> x \<in> set xs \<and> P x"
  by (induction xs) (auto split: if_splits)

lemma select_domain_cases:
  "select_domain rt inp =
     (if reads_index inp then Some (domains ! nat (the (parseInt inp) - 1))
      else find (domain_matches rt inp) domains)"
  by (auto simp: select_domain_def reads_index_def domains_def split: option.splits)

lemma select_domain_index: "reads_index inp \<Longrightarrow> \<exists>d \<in> set domains. select_domain rt inp = Some d"
proof -
  assume r: "reads_index inp"
  then obtain num where n: "parseInt inp = Some num" "1 \<le> num" "num \<le> 5"
    by (auto simp: reads_index_def split: option.splits)
  then have "nat (num - 1) < length domains" by (simp add: domains_def)
  then have "domains ! nat (num - 1) \<in> set domains" by (rule nth_mem)
  with r n show ?thesis by (simp add: select_domain_cases)
qed

lemma latin1_lower_ascii: "0 \<le> c \<and> c < 128 \<Longrightarrow> latin1_lower c = ascii_lower c"
  by (auto simp: latin1_lower_def ascii_lower_def)

lemma lowers_ascii_latin1: "lowers_ascii latin1_case"
  by (simp add: lowers_ascii_def latin1_case_def latin1_lower_ascii)

lemma lowers_ascii_agree:
  assumes "lowers_ascii rt" and "\<forall>c \<in> set s. 0 \<le> c \<and> c < 128"
  shows "toLowerCase rt s = toLowerCase latin1_case s"
  using assms lowers_ascii_latin1 by (simp add: lowers_ascii_def)

lemma domains_ascii: "d \<in> set domains \<Longrightarrow> \<forall>c \<in> set d. 0 \<le> c \<and> c < 128"
proof -
  have "list_all (list_all (\<lambda>c. 0 \<le> c \<and> c < 128)) domains" by code_simp
  then show "d \<in> set domains \<Longrightarrow> \<forall>c \<in> set d. 0 \<le> c \<and> c < 128"
    by (simp add: list_all_iff)
qed

lemma select_domain_ascii:
  assumes "lowers_ascii rt" and "\<forall>c \<in> set inp. 0 \<le> c \<and> c < 128"
  shows "select_domain rt inp = select_domain latin1_case inp"
proof -
  have "domain_matches rt inp d = domain_matches latin1_case inp d" if "d \<in> set domains" for d
    using lowers_ascii_agree [OF assms] lowers_ascii_agree [OF assms(1) domains_ascii [OF that]]
    by (simp add: domain_matches_def)
  then have "find (domain_matches rt inp) domains = find (domain_matches latin1_case inp) domains"
    by (intro find_cong) auto
  then show ?thesis by (simp add: select_domain_def split: option.splits)
qed

text \<open>
  C1, as amended. \<open>selectedDomain\<close> is set exactly when \<open>parseInt\<close> reads a number from
  1 to 5 off the input or some domain matches the input as a substring, either way
  round, in lower case. It is then one of the five domains: the one at that 1-based
  index, or else the first in the list that matches; and the handler goes on to request
  that domain's questions. For every other input the handler appends the re-prompt and
  changes nothing else: the assessment state, and so the phase, stays as it is, and no
  request is made. Input 3 gives Physics; with a runtime that lower-cases ASCII the way
  every engine does, bio gives Biology and xyz gives nothing.
\<close>

theorem select_domain_resolves:
  "(case select_domain rt inp of
      Some d \<Rightarrow>
        d \<in> set domains \<and>
        ((\<exists>n. parseInt inp = Some n \<and> 1 \<le> n \<and> n \<le> 5 \<and> d = domains ! nat (n - 1)) \<or>
         (\<not> reads_index inp \<and>
          (\<exists>i < length domains. d = domains ! i \<and> domain_matches rt inp d \<and>
             (\<forall>j < i. \<not> domain_matches rt inp (domains ! j))))) \<and>
        handleDomainSelection rt t inp s =
          (s\<lparr>messages := messages s @ [msg User (Plain d) t], loading := True\<rparr>,
           [Await_domain_questions (assessmentState s) d])
    | None \<Rightarrow>
        \<not> reads_index inp \<and> \<not> list_ex (domain_matches rt inp) domains \<and>
        handleDomainSelection rt t inp s =
          (s\<lparr>messages := messages s @ [msg Bot Reprompt t]\<rparr>, [])) \<and>
   select_domain rt (lit ''3'') = Some (lit ''Physics'') \<and>
   (lowers_ascii rt \<longrightarrow>
      select_domain rt (lit ''bio'') = Some (lit ''Biology'') \<and>
      select_domain rt (lit ''xyz'') = None)"
proof -
  have ex3: "select_domain rt (lit ''3'') = Some (lit ''Physics'')"
  proof -
    have "reads_index (lit ''3'')" by code_simp
    moreover have "domains ! nat (the (parseInt (lit ''3'')) - 1) = lit ''Physics''" by code_simp
    ultimately show ?thesis by (simp add: select_domain_cases)
  qed
  have exb: "select_domain rt (lit ''bio'') = Some (lit ''Biology'')" if "lowers_ascii rt"
  proof -
    have "\<forall>c \<in> set (lit ''bio''). 0 \<le> c \<and> c < 128" by code_simp
    from select_domain_ascii [OF that this]
    have "select_domain rt (lit ''bio'') = select_domain latin1_case (lit ''bio'')" .
    also have "\<dots> = Some (lit ''Biology'')" by code_simp
    finally show ?thesis .
  qed
  have exx: "select_domain rt (lit ''xyz'') = None" if "lowers_ascii rt"
  proof -
    have "\<forall>c \<in> set (lit ''xyz''). 0 \<le> c \<and> c < 128" by code_simp
    from select_domain_ascii [OF that this]
    have "select_domain rt (lit ''xyz'') = select_domain latin1_case (lit ''xyz'')" .
    also have "\<dots> = None" by code_simp
    finally show ?thesis .
  qed
  have main: "(case select_domain rt inp of
      Some d \<Rightarrow>
        d \<in> set domains \<and>
        ((\<exists>n. parseInt inp = Some n \<and> 1 \<le> n \<and> n \<le> 5 \<and> d = domains ! nat (n - 1)) \<or>
         (\<not> reads_index inp \<and>
          (\<exists>i < length domains. d = domains ! i \<and> domain_matches rt inp d \<and>
             (\<forall>j < i. \<not> domain_matches rt inp (domains ! j))))) \<and>
        handleDomainSelection rt t inp s =
          (s\<lparr>messages := messages s @ [msg User (Plain d) t], loading := True\<rparr>,
           [Await_domain_questions (assessmentState s) d])
    | None \<Rightarrow>
        \<not> reads_index inp \<and> \<not> list_ex (domain_matches rt inp) domains \<and>
        handleDomainSelection rt t inp s =
          (s\<lparr>messages := messages s @ [msg Bot Reprompt t]\<rparr>, []))"
  proof (cases "select_domain rt inp")
    case None
    have "\<not> reads_index inp"
      using None select_domain_index [where rt = rt and inp = inp] by fastforce
    moreover from this None have "\<not> list_ex (domain_matches rt inp) domains"
      by (simp add: select_domain_cases find_domains_None)
    ultimately show ?thesis using None by (simp add: handleDomainSelection_def)
  next
    case (Some d)
    have how: "(\<exists>n. parseInt inp = Some n \<and> 1 \<le> n \<and> n \<le> 5 \<and> d = domains ! nat (n - 1)) \<or>
         (\<not> reads_index inp \<and>
          (\<exists>i < length domains. d = domains ! i \<and> domain_matches rt inp d \<and>
             (\<forall>j < i. \<not> domain_matches rt inp (domains ! j))))"
    proof (cases "reads_index inp")
      case True
      then obtain n where "parseInt inp = Some n" "1 \<le> n" "n \<le> 5"
        by (auto simp: reads_index_def split: option.splits)
      with True Some show ?thesis by (auto simp: select_domain_cases)
    next
      case False
      with Some have "find (domain_matches rt inp) domains = Some d"
        by (simp add: select_domain_cases)
      then have "\<exists>i < length domains. d = domains ! i \<and> domain_matches rt inp d \<and>
             (\<forall>j < i. \<not> domain_matches rt inp (domains ! j))"
        by (auto simp: find_Some_iff)
      with False show ?thesis by simp
    qed
    have mem: "d \<in> set domains"
    proof (cases "reads_index inp")
      case True
      with select_domain_index [where rt = rt and inp = inp] Some show ?thesis by fastforce
    next
      case False
      with Some show ?thesis by (simp add: select_domain_cases find_in_set)
    qed
    from mem how Some show ?thesis by (simp add: handleDomainSelection_def domains_nonempty)
  qed
  from main ex3 exb exx show ?thesis by simp
qed

theorem select_domain_resolves_witness:
  "lowers_ascii latin1_case \<and>
   select_domain latin1_case (lit ''bio'') = Some (lit ''Biology'') \<and>
   select_domain latin1_case (lit ''Chem'') = Some (lit ''Chemistry'') \<and>
   loading (fst (handleDomainSelection latin1_case 5 (lit ''Chem'') (initial_chat 0))) \<and>
   select_domain latin1_case (lit ''xyz'') = None \<and>
   assessmentState (fst (handleDomainSelection latin1_case 5 (lit ''xyz'') (initial_chat 0))) =
     initial_assessment"
proof -
  have c: "select_domain latin1_case (lit ''Chem'') = Some (lit ''Chemistry'')" by code_simp
  have x: "select_domain latin1_case (lit ''xyz'') = None" by code_simp
  show ?thesis
    using select_domain_resolves
        [where rt = latin1_case and inp = "lit ''Chem''" and t = 5 and s = "initial_chat 0"]
      select_domain_resolves
        [where rt = latin1_case and inp = "lit ''xyz''" and t = 5 and s = "initial_chat 0"]
      lowers_ascii_latin1
    by (simp add: c x initial_chat_def)
qed

text \<open>
  C1 as first stated fails: an input that is neither one of the numerals 1 to 5 nor a
  substring match still resolves when it merely begins with such a digit.
\<close>

theorem select_domain_leading_integer:
  "lit ''3D printing'' \<notin> set index_numerals \<and>
   find (domain_matches latin1_case (lit ''3D printing'')) domains = None \<and>
   select_domain latin1_case (lit ''3D printing'') = Some (lit ''Physics'')"
  by code_simp

subsection \<open>Runs\<close>

lemma reachable_run_events:
  "reachable rt c \<Longrightarrow> run_events rt es c = Some c' \<Longrightarrow> reachable rt c'"
proof (induction es arbitrary: c)
  case Nil
  then show ?case by simp
next
  case (Cons e es)
  then show ?case by (auto split: option.splits intro: reachable_step)
qed

lemma reachable_the_run:
  assumes "\<not> Option.is_none (run_events rt es (initial_chat t, []))"
  shows "reachable rt (the (run_events rt es (initial_chat t, [])))"
proof -
  from assms obtain c where "run_events rt es (initial_chat t, []) = Some c"
    by (auto simp: Option.is_none_def)
  with reachable_run_events [OF reachable_init] show ?thesis by simp
qed

subsection \<open>Answering a mindset question\<close>

text \<open>
  C3. In the mindset phase, with a current question, \<open>handleMindsetAnswer\<close> records the
  answer (in upper case) under the id of the current question; below the last index the
  phase is still mindset and the index is one higher, at the last index the phase is
  domain selection.
\<close>

theorem handleMindsetAnswer_transitions:
  assumes "phase (assessmentState s) = Some Mindset"
    and "questions (assessmentState s) = Some qs"
    and "currentQuestion (assessmentState s) < length qs"
  shows "\<exists>s' new. handleMindsetAnswer rt t answer s = Inr (s', new) \<and>
     mindsetAnswers (assessmentState s') =
       (mindsetAnswers (assessmentState s))
         (qid (qs ! currentQuestion (assessmentState s)) \<mapsto> toUpperCase rt answer) \<and>
     (if currentQuestion (assessmentState s) + 1 < length qs
      then phase (assessmentState s') = Some Mindset \<and>
           currentQuestion (assessmentState s') = currentQuestion (assessmentState s) + 1
      else phase (assessmentState s') = Some Domain_selection)"
  using assms by (simp add: handleMindsetAnswer_def Let_def)

theorem handleMindsetAnswer_transitions_witness:
  "(\<exists>s' new. handleMindsetAnswer latin1_case 3 (lit ''b'') (sample_chat Mindset 0 (lit ''b''))
        = Inr (s', new) \<and>
      mindsetAnswers (assessmentState s') (lit ''q1'') = Some (lit ''B'') \<and>
      phase (assessmentState s') = Some Mindset \<and> currentQuestion (assessmentState s') = 1) \<and>
   (\<exists>s' new. handleMindsetAnswer latin1_case 3 (lit ''b'') (sample_chat Mindset 1 (lit ''b''))
        = Inr (s', new) \<and>
      mindsetAnswers (assessmentState s') (lit ''q2'') = Some (lit ''B'') \<and>
      phase (assessmentState s') = Some Domain_selection)"
proof -
  have u: "toUpperCase latin1_case (lit ''b'') = lit ''B''" by code_simp
  have a: "phase (assessmentState (sample_chat Mindset i (lit ''b''))) = Some Mindset" for i
    by (simp add: sample_chat_def)
  have q: "questions (assessmentState (sample_chat Mindset i (lit ''b''))) = Some sample_questions"
    for i by (simp add: sample_chat_def)
  have b0: "currentQuestion (assessmentState (sample_chat Mindset 0 (lit ''b'')))
              < length sample_questions"
    by (simp add: sample_chat_def sample_questions_def)
  have b1: "currentQuestion (assessmentState (sample_chat Mindset 1 (lit ''b'')))
              < length sample_questions"
    by (simp add: sample_chat_def sample_questions_def)
  from handleMindsetAnswer_transitions [OF a q b0, of latin1_case 3 "lit ''b''"]
  have "\<exists>s' new. handleMindsetAnswer latin1_case 3 (lit ''b'') (sample_chat Mindset 0 (lit ''b''))
        = Inr (s', new) \<and>
      mindsetAnswers (assessmentState s') (lit ''q1'') = Some (lit ''B'') \<and>
      phase (assessmentState s') = Some Mindset \<and> currentQuestion (assessmentState s') = 1"
    by (auto simp: u sample_chat_def sample_questions_def)
  moreover from handleMindsetAnswer_transitions [OF a q b1, of latin1_case 3 "lit ''b''"]
  have "\<exists>s' new. handleMindsetAnswer latin1_case 3 (lit ''b'') (sample_chat Mindset 1 (lit ''b''))
        = Inr (s', new) \<and>
      mindsetAnswers (assessmentState s') (lit ''q2'') = Some (lit ''B'') \<and>
      phase (assessmentState s') = Some Domain_selection"
    by (auto simp: u sample_chat_def sample_questions_def)
  ultimately show ?thesis by blast
qed

subsection \<open>Clearing the chat\<close>

text \<open>
  C6. Whatever the state, \<open>clearChat\<close> leaves the assessment state at its initial values
  (inactive, no phase, index 0, no questions, empty answer maps, no domain) and the
  message list at the one greeting; two states give the same result.
\<close>

theorem clearChat_resets:
  "assessmentState (clearChat t s) =
     \<lparr>active = False, phase = None, currentQuestion = 0, questions = Some [],
      answers = Map.empty, selectedDomain = None,
      mindsetAnswers = Map.empty, domainAnswers = Map.empty\<rparr> \<and>
   messages (clearChat t s) = [msg Bot Greeting_cleared t] \<and>
   assessmentState (clearChat t s) = assessmentState (clearChat t s') \<and>
   messages (clearChat t s) = messages (clearChat t s')"
  by (simp add: clearChat_def initial_assessment_def)

subsection \<open>The final evaluation\<close>

text \<open>
  C10, as amended. However the evaluation request ends, once \<open>submitCompleteAssessment\<close>
  has run to its end the assessment state has its initial values (inactive, no phase,
  no questions, empty answer maps, no domain) and the loading flag is clear. In the
  state it leaves, whatever is typed, \<open>sendMessage\<close> dispatches no phase handler and
  leaves the assessment state alone: the only request it can make is an ordinary chat
  question.
\<close>

theorem submitCompleteAssessment_always_resets:
  "(case submitCompleteAssessment_resume t closure r s of
      (s', new) \<Rightarrow>
        assessmentState s' =
          \<lparr>active = False, phase = None, currentQuestion = 0, questions = Some [],
           answers = Map.empty, selectedDomain = None,
           mindsetAnswers = Map.empty, domainAnswers = Map.empty\<rparr> \<and>
        \<not> loading s' \<and> new = [] \<and>
        (\<forall>v u u'. case sendMessage rt u u' (s'\<lparr>input := v\<rparr>) of
                     Inl e \<Rightarrow> False
                   | Inr (s'', ts) \<Rightarrow>
                       assessmentState s'' = assessmentState s' \<and>
                       (\<forall>tk \<in> set ts. tk = Await_ask (trim v))))"
  by (simp add: submitCompleteAssessment_resume_def initial_assessment_def sendMessage_def Let_def)

theorem submitCompleteAssessment_always_resets_witness:
  "assessmentState
     (fst (submitCompleteAssessment_resume 9
        (assessmentState (sample_chat Domain_test 1 (lit ''d'')))
        (Fetch_rejected (lit ''offline'')) (sample_chat Domain_test 1 (lit ''d'')))) =
     initial_assessment \<and>
   \<not> loading
     (fst (submitCompleteAssessment_resume 9
        (assessmentState (sample_chat Domain_test 1 (lit ''d'')))
        (Fetch_rejected (lit ''offline'')) (sample_chat Domain_test 1 (lit ''d'')))) \<and>
   snd (projr (sendMessage latin1_case 10 11
     ((fst (submitCompleteAssessment_resume 9
        (assessmentState (sample_chat Domain_test 1 (lit ''d'')))
        (Fetch_rejected (lit ''offline'')) (sample_chat Domain_test 1 (lit ''d''))))
      \<lparr>input := lit ''d''\<rparr>)))
     = [Await_ask (lit ''d'')]"
proof -
  let ?s = "fst (submitCompleteAssessment_resume 9
        (assessmentState (sample_chat Domain_test 1 (lit ''d'')))
        (Fetch_rejected (lit ''offline'')) (sample_chat Domain_test 1 (lit ''d'')))"
  have a: "assessmentState ?s = initial_assessment \<and> \<not> loading ?s"
    using submitCompleteAssessment_always_resets
      [where t = 9 and closure = "assessmentState (sample_chat Domain_test 1 (lit ''d''))"
         and r = "Fetch_rejected (lit ''offline'')" and s = "sample_chat Domain_test 1 (lit ''d'')"
         and rt = latin1_case]
    by (simp add: initial_assessment_def split: prod.splits)
  have t: "trim (lit ''d'') = lit ''d''" by code_simp
  have n: "lit ''d'' \<noteq> []" by (simp add: lit_def)
  have b: "snd (projr (sendMessage latin1_case 10 11 (?s\<lparr>input := lit ''d''\<rparr>)))
             = [Await_ask (lit ''d'')]"
    by (simp add: sendMessage_def submitCompleteAssessment_resume_def initial_assessment_def t n)
  from a b show ?thesis by simp
qed

text \<open>
  C10 as first stated fails where it says that the answers cannot be submitted again.
  In the run \<open>stale_events\<close> the evaluation fails and the state is reset; then a request
  for domain questions that was still on its way settles and writes back the state of
  its closure, and the next answer posts the mindset answer of before to the evaluation
  once more.
\<close>

lemma stale_config_reachable: "reachable latin1_case (stale_config n)"
proof -
  have "\<not> Option.is_none (run_events latin1_case stale_events (initial_chat 0, []))"
    by code_simp
  moreover have "run_events rt (xs @ ys) c = None" if "run_events rt xs c = None"
    for rt xs ys c
    using that by (induction xs arbitrary: c) (auto split: option.splits)
  ultimately have "\<not> Option.is_none
      (run_events latin1_case (take n stale_events) (initial_chat 0, []))"
    by (metis append_take_drop_id Option.is_none_def)
  then show ?thesis unfolding stale_config_def by (rule reachable_the_run)
qed

theorem answers_resubmitted_after_reset:
  "reachable latin1_case (stale_config 14) \<and>
   \<not> active (assessmentState (fst (stale_config 14))) \<and>
   mindsetAnswers (assessmentState (fst (stale_config 14))) (lit ''q1'') = None \<and>
   map is_evaluate (snd (stale_config 14)) = [False, False, False] \<and>
   reachable latin1_case (stale_config 17) \<and>
   map is_evaluate (snd (stale_config 17)) = [False, False, False, True] \<and>
   posted_mindset (last (snd (stale_config 17))) (lit ''q1'') = Some (lit ''A'')"
proof -
  have "\<not> active (assessmentState (fst (stale_config 14))) \<and>
   mindsetAnswers (assessmentState (fst (stale_config 14))) (lit ''q1'') = None \<and>
   map is_evaluate (snd (stale_config 14)) = [False, False, False] \<and>
   map is_evaluate (snd (stale_config 17)) = [False, False, False, True] \<and>
   posted_mindset (last (snd (stale_config 17))) (lit ''q1'') = Some (lit ''A'')"
    by code_simp
  with stale_config_reachable show ?thesis by simp
qed

subsection \<open>Failed requests\<close>

text \<open>
  C4, as amended. A request of these handlers fails when \<open>fetch\<close> rejects or the body is
  not JSON; the status of a response is never looked at, so any status gives what status
  200 gives. Starting the assessment and fetching the domain questions then leave the
  assessment state as it was before the handler, append one error message and clear the
  loading flag. Submitting the final evaluation appends one error message and clears the
  loading flag too, but resets the assessment state to its initial values.
\<close>

theorem failed_request_effects:
  assumes "fetch_json rq = None" and "fetch_json re = None"
  shows "assessmentState (fst (startAssessment t0 s)) = assessmentState s \<and>
     startAssessment_resume t rq s =
       (s\<lparr>messages := messages s @ [msg Bot Load_assessment_error t], loading := False\<rparr>, []) \<and>
     (\<forall>inp. assessmentState (fst (handleDomainSelection rt t0 inp s)) = assessmentState s) \<and>
     handleDomainSelection_resume t closure d rq s =
       (s\<lparr>messages := messages s @ [msg Bot Load_domain_questions_error t], loading := False\<rparr>, []) \<and>
     assessmentState (fst (submitCompleteAssessment t0 closure da s)) = assessmentState s \<and>
     submitCompleteAssessment_resume t closure re s =
       (s\<lparr>messages := messages s @ [msg Bot Evaluate_error t], loading := False,
          assessmentState := initial_assessment\<rparr>, []) \<and>
     (\<forall>st txt body.
        startAssessment_resume t (Response st txt body) s =
          startAssessment_resume t (Response 200 txt body) s \<and>
        handleDomainSelection_resume t closure d (Response st txt body) s =
          handleDomainSelection_resume t closure d (Response 200 txt body) s) \<and>
     (\<forall>st txt body.
        submitCompleteAssessment_resume t closure (Response st txt body) s =
          submitCompleteAssessment_resume t closure (Response 200 txt body) s)"
proof -
  have main: "assessmentState (fst (startAssessment t0 s)) = assessmentState s \<and>
     startAssessment_resume t rq s =
       (s\<lparr>messages := messages s @ [msg Bot Load_assessment_error t], loading := False\<rparr>, []) \<and>
     (\<forall>inp. assessmentState (fst (handleDomainSelection rt t0 inp s)) = assessmentState s) \<and>
     handleDomainSelection_resume t closure d rq s =
       (s\<lparr>messages := messages s @ [msg Bot Load_domain_questions_error t], loading := False\<rparr>, []) \<and>
     assessmentState (fst (submitCompleteAssessment t0 closure da s)) = assessmentState s \<and>
     submitCompleteAssessment_resume t closure re s =
       (s\<lparr>messages := messages s @ [msg Bot Evaluate_error t], loading := False,
          assessmentState := initial_assessment\<rparr>, [])"
    using assms
    by (simp add: startAssessment_def startAssessment_resume_def handleDomainSelection_def
        handleDomainSelection_resume_def submitCompleteAssessment_def
        submitCompleteAssessment_resume_def split: option.splits)
  have q: "startAssessment_resume t (Response st tx body) s =
          startAssessment_resume t (Response 200 tx body) s \<and>
        handleDomainSelection_resume t closure d (Response st tx body) s =
          handleDomainSelection_resume t closure d (Response 200 tx body) s"
    for st tx body
    by (cases body) (simp_all add: startAssessment_resume_def handleDomainSelection_resume_def)
  have e: "submitCompleteAssessment_resume t closure (Response st tx body) s =
          submitCompleteAssessment_resume t closure (Response 200 tx body) s"
    for st tx body
    by (cases body) (simp_all add: submitCompleteAssessment_resume_def)
  from main q e show ?thesis by blast
qed

theorem failed_request_effects_witness:
  "assessmentState (fst (startAssessment_resume 2
      (Response 502 (Inr (lit ''Bad Gateway'')) (Inl (lit ''Unexpected token'')))
      (fst (startAssessment 1 (initial_chat 0))))) = assessmentState (initial_chat 0) \<and>
   \<not> loading (fst (startAssessment_resume 2
      (Response 502 (Inr (lit ''Bad Gateway'')) (Inl (lit ''Unexpected token'')))
      (fst (startAssessment 1 (initial_chat 0))))) \<and>
   assessmentState (fst (submitCompleteAssessment_resume 2
      (assessmentState (sample_chat Domain_test 1 []))
      (Fetch_rejected (lit ''offline'')) (sample_chat Domain_test 1 []))) = initial_assessment"
proof -
  have a: "fetch_json (Response 502 (Inr (lit ''Bad Gateway'')) (Inl (lit ''Unexpected token''))
             :: questions_data response) = None" by simp
  have b: "fetch_json (Fetch_rejected (lit ''offline'') :: evaluation response) = None" by simp
  show ?thesis
    using failed_request_effects [OF a b, where ?t0.0 = 1 and t = 2
          and s = "fst (startAssessment 1 (initial_chat 0))"]
      failed_request_effects [OF a b, where ?t0.0 = 1 and t = 2
          and s = "sample_chat Domain_test 1 []"
          and closure = "assessmentState (sample_chat Domain_test 1 [])"]
    by (simp add: startAssessment_def)
qed

text \<open>
  C4 as first stated fails twice. The last domain answer issues the evaluation request,
  and when that request fails the assessment state is not the one it was when the
  request was issued. And a start request that comes back with status 500 and a JSON
  error body, which has no questions, leaves an assessment state that is not the one
  before it.
\<close>

theorem failed_request_changes_state:
  "snd (projr (handleDomainAnswer latin1_case 7 8 (lit ''a'')
         (sample_chat Domain_test 1 (lit ''a'')))) =
     [Await_evaluate (assessmentState (sample_chat Domain_test 1 (lit ''a'')))
        [lit ''q2'' \<mapsto> lit ''A'']] \<and>
   assessmentState
     (fst (submitCompleteAssessment_resume 9
        (assessmentState (sample_chat Domain_test 1 (lit ''a'')))
        (Fetch_rejected (lit ''offline''))
        (fst (projr (handleDomainAnswer latin1_case 7 8 (lit ''a'')
                (sample_chat Domain_test 1 (lit ''a''))))))) \<noteq>
   assessmentState
     (fst (projr (handleDomainAnswer latin1_case 7 8 (lit ''a'')
            (sample_chat Domain_test 1 (lit ''a''))))) \<and>
   \<not> ok error_body \<and>
   assessmentState (fst (startAssessment_resume 2 error_body
      (fst (startAssessment 1 (initial_chat 0))))) \<noteq>
   assessmentState (fst (startAssessment 1 (initial_chat 0)))"
proof -
  have u: "toUpperCase latin1_case (lit ''a'') = lit ''A''" by code_simp
  let ?before = "fst (projr (handleDomainAnswer latin1_case 7 8 (lit ''a'')
      (sample_chat Domain_test 1 (lit ''a''))))"
  let ?after = "fst (submitCompleteAssessment_resume 9
      (assessmentState (sample_chat Domain_test 1 (lit ''a''))) (Fetch_rejected (lit ''offline''))
      ?before)"
  have run: "snd (projr (handleDomainAnswer latin1_case 7 8 (lit ''a'')
         (sample_chat Domain_test 1 (lit ''a'')))) =
     [Await_evaluate (assessmentState (sample_chat Domain_test 1 (lit ''a'')))
        [lit ''q2'' \<mapsto> lit ''A'']]"
    by (simp add: handleDomainAnswer_def submitCompleteAssessment_def sample_chat_def
        sample_questions_def u Let_def)
  have "active (assessmentState ?before)"
    by (simp add: handleDomainAnswer_def submitCompleteAssessment_def sample_chat_def
        sample_questions_def Let_def)
  moreover have "\<not> active (assessmentState ?after)"
    by (simp add: submitCompleteAssessment_resume_def initial_assessment_def)
  ultimately have ev: "assessmentState ?after \<noteq> assessmentState ?before" by auto
  have "\<not> active (assessmentState (fst (startAssessment 1 (initial_chat 0))))"
    by (simp add: startAssessment_def initial_chat_def initial_assessment_def)
  moreover have "active (assessmentState (fst (startAssessment_resume 2 error_body
      (fst (startAssessment 1 (initial_chat 0))))))"
    by (simp add: startAssessment_resume_def error_body_def)
  ultimately have st: "assessmentState (fst (startAssessment_resume 2 error_body
      (fst (startAssessment 1 (initial_chat 0))))) \<noteq>
   assessmentState (fst (startAssessment 1 (initial_chat 0)))" by auto
  have "\<not> ok error_body" by (simp add: error_body_def)
  with run ev st show ?thesis by simp
qed

subsection \<open>The question index\<close>

lemma handleMindsetAnswer_index:
  "handleMindsetAnswer rt t answer s = Inr (s', new) \<Longrightarrow> index_in_range (assessmentState s')"
  by (auto simp: handleMindsetAnswer_def index_in_range_def Let_def
      split: if_splits option.splits)

lemma handleDomainAnswer_index:
  "handleDomainAnswer rt t t' answer s = Inr (s', new) \<Longrightarrow> index_in_range (assessmentState s')"
  by (auto simp: handleDomainAnswer_def submitCompleteAssessment_def index_in_range_def Let_def
      split: if_splits option.splits)

lemma handleDomainSelection_assessment:
  "handleDomainSelection rt t inp s = (s', new) \<Longrightarrow> assessmentState s' = assessmentState s"
  by (auto simp: handleDomainSelection_def split: option.splits if_splits)

lemma sendMessage_cases:
  assumes "sendMessage rt t t' s = Inr (s', new)"
  obtains
    (idle) "s' = s" "new = []"
  | (chat) "\<not> active (assessmentState s)" "assessmentState s' = assessmentState s"
      "new = [Await_ask (trim (input s))]"
  | (no_phase) "assessmentState s' = assessmentState s" "new = []"
  | (mindset) s1 where "trim (input s) \<noteq> []" "phase (assessmentState s) = Some Mindset"
      "handleMindsetAnswer rt t (input s) s = Inr (s1, new)" "s' = s1\<lparr>input := []\<rparr>"
  | (selection) s1 where "phase (assessmentState s) = Some Domain_selection"
      "handleDomainSelection rt t (input s) s = (s1, new)" "s' = s1\<lparr>input := []\<rparr>"
  | (test) s1 where "trim (input s) \<noteq> []" "phase (assessmentState s) = Some Domain_test"
      "handleDomainAnswer rt t t' (input s) s = Inr (s1, new)" "s' = s1\<lparr>input := []\<rparr>"
proof (cases "trim (input s) = [] \<or> loading s")
  case True
  with assms idle show ?thesis by (simp add: sendMessage_def)
next
  case busy: False
  show ?thesis
  proof (cases "active (assessmentState s)")
    case False
    with busy assms chat show ?thesis by (auto simp: sendMessage_def)
  next
    case True
    show ?thesis
    proof (cases "phase (assessmentState s)")
      case None
      with busy True assms no_phase show ?thesis by (auto simp: sendMessage_def)
    next
      case (Some ph)
      show ?thesis
      proof (cases ph)
        case Mindset
        with busy True Some assms obtain s1 where
          "handleMindsetAnswer rt t (input s) s = Inr (s1, new)" "s' = s1\<lparr>input := []\<rparr>"
          by (auto simp: sendMessage_def split: sum.splits)
        with busy Some Mindset mindset show ?thesis by simp
      next
        case Domain_selection
        with busy True Some assms obtain s1 where
          "handleDomainSelection rt t (input s) s = (s1, new)" "s' = s1\<lparr>input := []\<rparr>"
          by (auto simp: sendMessage_def split: prod.splits)
        with Some Domain_selection selection show ?thesis by simp
      next
        case Domain_test
        with busy True Some assms obtain s1 where
          "handleDomainAnswer rt t t' (input s) s = Inr (s1, new)" "s' = s1\<lparr>input := []\<rparr>"
          by (auto simp: sendMessage_def split: sum.splits)
        with busy Some Domain_test test show ?thesis by simp
      qed
    qed
  qed
qed

lemma sendMessage_index:
  assumes "index_in_range (assessmentState s)" and "sendMessage rt t t' s = Inr (s', new)"
  shows "index_in_range (assessmentState s')"
  using assms(2)
proof (cases rule: sendMessage_cases)
  case (mindset s1)
  then show ?thesis using handleMindsetAnswer_index by fastforce
next
  case (selection s1)
  then show ?thesis using handleDomainSelection_assessment assms(1) by fastforce
next
  case (test s1)
  then show ?thesis using handleDomainAnswer_index by fastforce
qed (use assms(1) in simp_all)

lemma run_task_index:
  assumes "index_in_range (assessmentState s)" and "run_task t tk rep s = Some (s', new)"
  shows "index_in_range (assessmentState s')"
  using assms
  by (cases "(t, tk, rep, s)" rule: run_task.cases)
    (auto simp: startAssessment_resume_def askQuestion_def showDomainSelection_def
      showDomainSelection_resume_def handleDomainSelection_resume_def
      submitCompleteAssessment_resume_def sendMessage_resume_def index_in_range_def
      initial_assessment_def Let_def split: option.splits if_splits sum.splits)

lemma chat_step_cases:
  assumes "chat_step rt e (s, ts) = Some (s', ts')"
  obtains
    (quiet) "assessmentState s' = assessmentState s" "ts' = ts \<or> ts' = ts @ [Await_assessment_start]"
  | (send) t t' new where "sendMessage rt t t' s = Inr (s', new)" "ts' = ts @ new"
  | (clear) "assessmentState s' = initial_assessment" "ts' = ts"
  | (task) i t rep new where "i < length ts" "run_task t (ts ! i) rep s = Some (s', new)"
      "ts' = take i ts @ drop (Suc i) ts @ new"
proof (cases e)
  case (Click_startAssessment t)
  with assms quiet show ?thesis by (auto simp: startAssessment_def split: if_splits)
next
  case (Click_quickAction i t)
  with assms quiet show ?thesis
    by (auto simp: handleQuickAction_def startAssessment_def split: if_splits)
next
  case (Change_input v)
  with assms quiet show ?thesis by (auto split: if_splits)
next
  case (Send t t')
  show ?thesis
  proof (cases "sendMessage rt t t' s")
    case (Inl e')
    with Send assms quiet show ?thesis by simp
  next
    case (Inr p)
    with Send assms send show ?thesis by (cases p) simp
  qed
next
  case (Click_clearChat t)
  with assms clear show ?thesis by (auto simp: clearChat_def)
next
  case (Run_task i t rep)
  with assms task show ?thesis by (auto split: if_splits option.splits)
qed

lemma chat_step_index:
  assumes "index_in_range (assessmentState (fst c))" and "chat_step rt e c = Some c'"
  shows "index_in_range (assessmentState (fst c'))"
proof -
  obtain s ts s' ts' where c: "c = (s, ts)" "c' = (s', ts')" by (cases c, cases c')
  from assms(2) [unfolded c] show ?thesis
  proof (cases rule: chat_step_cases)
    case quiet
    with assms(1) c show ?thesis by simp
  next
    case (send t t' new)
    with sendMessage_index assms(1) c show ?thesis by fastforce
  next
    case clear
    with c show ?thesis by (simp add: initial_assessment_def index_in_range_def)
  next
    case (task i t rep new)
    with run_task_index assms(1) c show ?thesis by fastforce
  qed
qed

lemma reachable_index: "reachable rt c \<Longrightarrow> index_in_range (assessmentState (fst c))"
proof (induction rule: reachable.induct)
  case (reachable_init t)
  show ?case by (simp add: initial_chat_def initial_assessment_def index_in_range_def)
next
  case (reachable_step c e c')
  then show ?case by (blast intro: chat_step_index)
qed

lemma sample_config_reachable: "reachable latin1_case sample_config"
proof -
  have "\<not> Option.is_none (run_events latin1_case sample_events (initial_chat 0, []))"
    by code_simp
  then show ?thesis unfolding sample_config_def by (rule reachable_the_run)
qed

text \<open>
  C2, as amended. In every configuration the widget reaches, while the assessment is
  active in the mindset or the domain-test phase and there are questions, the index is
  below the number of questions. An answer that \<open>sendMessage\<close> accepts (input not blank,
  not loading) then, below the last index, moves the index up by one, keeps the phase
  and asks the next question; at the last index of the mindset phase it sets the phase
  to domain selection; at the last index of the domain test it leaves the phase and the
  index as they are, issues one evaluation request and sets \<open>loading\<close>, and the phase is
  cleared when that request settles.
\<close>

theorem question_index_and_transitions:
  assumes "reachable rt (s, ts)"
    and "active (assessmentState s)"
    and "phase (assessmentState s) = Some Mindset \<or> phase (assessmentState s) = Some Domain_test"
    and "questions (assessmentState s) = Some qs" and "qs \<noteq> []"
  shows "currentQuestion (assessmentState s) < length qs \<and>
     (trim (input s) \<noteq> [] \<and> \<not> loading s \<longrightarrow>
        (\<exists>s' new. sendMessage rt t t' s = Inr (s', new) \<and>
           (if currentQuestion (assessmentState s) + 1 < length qs
            then currentQuestion (assessmentState s') = currentQuestion (assessmentState s) + 1 \<and>
                 phase (assessmentState s') = phase (assessmentState s) \<and>
                 new = [Timer_askQuestion (Some qs) (currentQuestion (assessmentState s) + 1)]
            else if phase (assessmentState s) = Some Mindset
            then phase (assessmentState s') = Some Domain_selection \<and>
                 new = [Timer_showDomainSelection]
            else phase (assessmentState s') = Some Domain_test \<and>
                 currentQuestion (assessmentState s') = currentQuestion (assessmentState s) \<and>
                 (\<exists>da. new = [Await_evaluate (assessmentState s) da]) \<and> loading s' \<and>
                 (\<forall>u r. phase (assessmentState
                    (fst (submitCompleteAssessment_resume u (assessmentState s) r s'))) = None))))"
proof -
  from reachable_index [OF assms(1)] assms(3,4,5)
  have lt: "currentQuestion (assessmentState s) < length qs"
    by (simp add: index_in_range_def)
  have "\<exists>s' new. sendMessage rt t t' s = Inr (s', new) \<and>
           (if currentQuestion (assessmentState s) + 1 < length qs
            then currentQuestion (assessmentState s') = currentQuestion (assessmentState s) + 1 \<and>
                 phase (assessmentState s') = phase (assessmentState s) \<and>
                 new = [Timer_askQuestion (Some qs) (currentQuestion (assessmentState s) + 1)]
            else if phase (assessmentState s) = Some Mindset
            then phase (assessmentState s') = Some Domain_selection \<and>
                 new = [Timer_showDomainSelection]
            else phase (assessmentState s') = Some Domain_test \<and>
                 currentQuestion (assessmentState s') = currentQuestion (assessmentState s) \<and>
                 (\<exists>da. new = [Await_evaluate (assessmentState s) da]) \<and> loading s' \<and>
                 (\<forall>u r. phase (assessmentState
                    (fst (submitCompleteAssessment_resume u (assessmentState s) r s'))) = None))"
    if go: "trim (input s) \<noteq> [] \<and> \<not> loading s"
  proof (cases "phase (assessmentState s) = Some Mindset")
    case True
    with go assms(2,4) lt show ?thesis
      by (simp add: sendMessage_def handleMindsetAnswer_def Let_def)
  next
    case False
    with assms(3) have dt: "phase (assessmentState s) = Some Domain_test" by simp
    with go assms(2,4) lt show ?thesis
      by (simp add: sendMessage_def handleDomainAnswer_def submitCompleteAssessment_def
          submitCompleteAssessment_resume_def initial_assessment_def Let_def)
  qed
  with lt show ?thesis by blast
qed

theorem question_index_and_transitions_witness:
  "reachable latin1_case sample_config \<and>
   currentQuestion (assessmentState (fst sample_config)) < length sample_questions \<and>
   (\<exists>s' new. sendMessage latin1_case 3 4 (fst sample_config) = Inr (s', new) \<and>
      currentQuestion (assessmentState s') = 1 \<and> phase (assessmentState s') = Some Mindset)"
proof -
  have r: "reachable latin1_case (fst sample_config, snd sample_config)"
    using sample_config_reachable by simp
  have f: "active (assessmentState (fst sample_config)) \<and>
      phase (assessmentState (fst sample_config)) = Some Mindset \<and>
      questions (assessmentState (fst sample_config)) = Some sample_questions \<and>
      trim (input (fst sample_config)) \<noteq> [] \<and> \<not> loading (fst sample_config) \<and>
      currentQuestion (assessmentState (fst sample_config)) = 0"
    by code_simp
  have n: "sample_questions \<noteq> []" "0 + 1 < length sample_questions"
    by (simp_all add: sample_questions_def)
  from question_index_and_transitions [OF r, of sample_questions 3 4] f n
  have "currentQuestion (assessmentState (fst sample_config)) < length sample_questions \<and>
        (\<exists>s' new. sendMessage latin1_case 3 4 (fst sample_config) = Inr (s', new) \<and>
           currentQuestion (assessmentState s') = 1 \<and> phase (assessmentState s') = Some Mindset)"
    by auto
  with sample_config_reachable show ?thesis by simp
qed

text \<open>
  C2 as first stated fails at the last index of the domain test. In the run
  \<open>race_events\<close> the answer at that index issues the evaluation request and leaves the
  phase and the index as they were; when the domain list then arrives \<open>loading\<close> is
  cleared, and a second answer at the same index issues a second evaluation request.
\<close>

lemma race_config_reachable: "reachable latin1_case (race_config n)"
proof -
  have "\<not> Option.is_none (run_events latin1_case race_events (initial_chat 0, []))"
    by code_simp
  moreover have "run_events rt (xs @ ys) c = None" if "run_events rt xs c = None"
    for rt xs ys c
    using that by (induction xs arbitrary: c) (auto split: option.splits)
  ultimately have "\<not> Option.is_none
      (run_events latin1_case (take n race_events) (initial_chat 0, []))"
    by (metis append_take_drop_id Option.is_none_def)
  then show ?thesis unfolding race_config_def by (rule reachable_the_run)
qed

theorem two_evaluations_from_one_index:
  "reachable latin1_case (race_config 9) \<and>
   phase (assessmentState (fst (race_config 9))) = Some Domain_test \<and>
   currentQuestion (assessmentState (fst (race_config 9))) = 0 \<and>
   map is_evaluate (snd (race_config 9)) = [False, False, False] \<and>
   reachable latin1_case (race_config 10) \<and>
   phase (assessmentState (fst (race_config 10))) = Some Domain_test \<and>
   currentQuestion (assessmentState (fst (race_config 10))) = 0 \<and>
   map is_evaluate (snd (race_config 10)) = [False, False, False, True] \<and>
   reachable latin1_case (race_config 13) \<and>
   map is_evaluate (snd (race_config 13)) = [False, False, True, True]"
proof -
  have "phase (assessmentState (fst (race_config 9))) = Some Domain_test \<and>
   currentQuestion (assessmentState (fst (race_config 9))) = 0 \<and>
   map is_evaluate (snd (race_config 9)) = [False, False, False] \<and>
   phase (assessmentState (fst (race_config 10))) = Some Domain_test \<and>
   currentQuestion (assessmentState (fst (race_config 10))) = 0 \<and>
   map is_evaluate (snd (race_config 10)) = [False, False, False, True] \<and>
   map is_evaluate (snd (race_config 13)) = [False, False, True, True]"
    by code_simp
  with race_config_reachable show ?thesis by simp
qed

subsection \<open>What the answer maps hold\<close>

lemma ran_upd_cases: "v' \<in> ran (m(k \<mapsto> v)) \<Longrightarrow> v' = v \<or> v' \<in> ran m"
  by (auto simp: ran_def split: if_splits)

lemma handleMindsetAnswer_upper:
  assumes "answers_upper rt (assessmentState s)" and "trim answer \<noteq> []"
    and "handleMindsetAnswer rt t answer s = Inr (s', new)"
  shows "answers_upper rt (assessmentState s') \<and> (\<forall>tk \<in> set new. task_upper rt tk)"
proof -
  from assms(2) have "upper_of_input rt (toUpperCase rt answer)"
    by (auto simp: upper_of_input_def)
  with assms(1,3) show ?thesis
    by (auto simp: handleMindsetAnswer_def answers_upper_def Let_def
        split: if_splits option.splits dest!: ran_upd_cases)
qed

lemma handleDomainAnswer_upper:
  assumes "answers_upper rt (assessmentState s)" and "trim answer \<noteq> []"
    and "handleDomainAnswer rt t t' answer s = Inr (s', new)"
  shows "answers_upper rt (assessmentState s') \<and> (\<forall>tk \<in> set new. task_upper rt tk)"
proof -
  from assms(2) have "upper_of_input rt (toUpperCase rt answer)"
    by (auto simp: upper_of_input_def)
  with assms(1,3) show ?thesis
    by (auto simp: handleDomainAnswer_def submitCompleteAssessment_def answers_upper_def Let_def
        split: if_splits option.splits dest!: ran_upd_cases)
qed

lemma handleDomainSelection_upper:
  assumes "answers_upper rt (assessmentState s)" and "handleDomainSelection rt t inp s = (s', new)"
  shows "answers_upper rt (assessmentState s') \<and> (\<forall>tk \<in> set new. task_upper rt tk)"
  using assms by (auto simp: handleDomainSelection_def split: option.splits if_splits)

lemma sendMessage_upper:
  assumes "answers_upper rt (assessmentState s)" and "sendMessage rt t t' s = Inr (s', new)"
  shows "answers_upper rt (assessmentState s') \<and> (\<forall>tk \<in> set new. task_upper rt tk)"
  using assms(2)
proof (cases rule: sendMessage_cases)
  case (mindset s1)
  with handleMindsetAnswer_upper [OF assms(1), of "input s" t s1 new] show ?thesis by simp
next
  case (selection s1)
  with handleDomainSelection_upper [OF assms(1), of t "input s" s1 new] show ?thesis by simp
next
  case (test s1)
  with handleDomainAnswer_upper [OF assms(1), of "input s" t t' s1 new] show ?thesis by simp
qed (use assms(1) in simp_all)

lemma run_task_upper:
  assumes "answers_upper rt (assessmentState s)" and "task_upper rt tk"
    and "run_task t tk rep s = Some (s', new)"
  shows "answers_upper rt (assessmentState s') \<and> (\<forall>tk \<in> set new. task_upper rt tk)"
  using assms
  by (cases "(t, tk, rep, s)" rule: run_task.cases)
    (auto simp: startAssessment_resume_def askQuestion_def showDomainSelection_def
      showDomainSelection_resume_def handleDomainSelection_resume_def
      submitCompleteAssessment_resume_def sendMessage_resume_def answers_upper_def
      initial_assessment_def Let_def split: option.splits if_splits sum.splits)

lemma chat_step_upper:
  assumes "config_upper rt c" and "chat_step rt e c = Some c'"
  shows "config_upper rt c'"
proof -
  obtain s ts s' ts' where c: "c = (s, ts)" "c' = (s', ts')" by (cases c, cases c')
  from assms(1) c have inv: "answers_upper rt (assessmentState s)" "\<forall>tk \<in> set ts. task_upper rt tk"
    by (simp_all add: config_upper_def)
  from assms(2) [unfolded c] show ?thesis
  proof (cases rule: chat_step_cases)
    case quiet
    with inv c show ?thesis by (auto simp: config_upper_def)
  next
    case (send t t' new)
    from sendMessage_upper [OF inv(1) send(1)] inv(2) send(2) c show ?thesis
      by (auto simp: config_upper_def)
  next
    case clear
    with inv c show ?thesis
      by (simp add: config_upper_def answers_upper_def initial_assessment_def)
  next
    case (task i t rep new)
    from inv(2) task(1) have "task_upper rt (ts ! i)" by simp
    from run_task_upper [OF inv(1) this task(2)]
    have n: "answers_upper rt (assessmentState s')" "\<forall>tk \<in> set new. task_upper rt tk" by simp_all
    have "\<forall>tk \<in> set (take i ts @ drop (Suc i) ts @ new). task_upper rt tk"
      using inv(2) n(2) by (auto dest: in_set_takeD in_set_dropD)
    with n(1) task(3) c show ?thesis by (simp add: config_upper_def)
  qed
qed

lemma reachable_upper: "reachable rt c \<Longrightarrow> config_upper rt c"
proof (induction rule: reachable.induct)
  case (reachable_init t)
  show ?case
    by (simp add: initial_chat_def initial_assessment_def config_upper_def answers_upper_def)
next
  case (reachable_step c e c')
  then show ?case by (blast intro: chat_step_upper)
qed

lemma hello_config_reachable: "reachable latin1_case hello_config"
proof -
  have "\<not> Option.is_none
      (run_events latin1_case (sample_events @ [Send 3 4]) (initial_chat 0, []))"
    by code_simp
  then show ?thesis unfolding hello_config_def by (rule reachable_the_run)
qed

text \<open>
  C9, as amended. In every configuration the widget reaches, every value in
  \<open>mindsetAnswers\<close> and in \<open>domainAnswers\<close> is the upper case, as \<open>toUpperCase\<close> gives it,
  of an input that is not blank. A handler called with a current question stores the
  upper case of the answer under the id of the current question, in its own map, and
  leaves the other map as it is.
\<close>

theorem stored_answers_upper_case:
  "(reachable rt (s, ts) \<longrightarrow>
      (\<forall>v \<in> ran (mindsetAnswers (assessmentState s)) \<union> ran (domainAnswers (assessmentState s)).
         \<exists>inp. trim inp \<noteq> [] \<and> v = toUpperCase rt inp)) \<and>
   (questions (assessmentState c) = Some qs \<and> currentQuestion (assessmentState c) < length qs \<longrightarrow>
      (\<exists>c' new. handleMindsetAnswer rt t answer c = Inr (c', new) \<and>
         mindsetAnswers (assessmentState c') =
           (mindsetAnswers (assessmentState c))
             (qid (qs ! currentQuestion (assessmentState c)) \<mapsto> toUpperCase rt answer) \<and>
         domainAnswers (assessmentState c') = domainAnswers (assessmentState c)) \<and>
      (\<exists>c' new. handleDomainAnswer rt t t' answer c = Inr (c', new) \<and>
         domainAnswers (assessmentState c') =
           (domainAnswers (assessmentState c))
             (qid (qs ! currentQuestion (assessmentState c)) \<mapsto> toUpperCase rt answer) \<and>
         mindsetAnswers (assessmentState c') = mindsetAnswers (assessmentState c)))"
proof (intro conjI impI)
  assume "reachable rt (s, ts)"
  from reachable_upper [OF this]
  show "\<forall>v \<in> ran (mindsetAnswers (assessmentState s)) \<union> ran (domainAnswers (assessmentState s)).
          \<exists>inp. trim inp \<noteq> [] \<and> v = toUpperCase rt inp"
    by (simp add: config_upper_def answers_upper_def upper_of_input_def)
next
  assume "questions (assessmentState c) = Some qs \<and> currentQuestion (assessmentState c) < length qs"
  then show "\<exists>c' new. handleMindsetAnswer rt t answer c = Inr (c', new) \<and>
         mindsetAnswers (assessmentState c') =
           (mindsetAnswers (assessmentState c))
             (qid (qs ! currentQuestion (assessmentState c)) \<mapsto> toUpperCase rt answer) \<and>
         domainAnswers (assessmentState c') = domainAnswers (assessmentState c)"
    by (simp add: handleMindsetAnswer_def Let_def)
next
  assume "questions (assessmentState c) = Some qs \<and> currentQuestion (assessmentState c) < length qs"
  then show "\<exists>c' new. handleDomainAnswer rt t t' answer c = Inr (c', new) \<and>
         domainAnswers (assessmentState c') =
           (domainAnswers (assessmentState c))
             (qid (qs ! currentQuestion (assessmentState c)) \<mapsto> toUpperCase rt answer) \<and>
         mindsetAnswers (assessmentState c') = mindsetAnswers (assessmentState c)"
    by (simp add: handleDomainAnswer_def submitCompleteAssessment_def Let_def)
qed

theorem stored_answers_upper_case_witness:
  "reachable latin1_case hello_config \<and>
   mindsetAnswers (assessmentState (fst hello_config)) (lit ''q1'') = Some (lit ''HELLO'') \<and>
   (\<exists>inp. trim inp \<noteq> [] \<and> lit ''HELLO'' = toUpperCase latin1_case inp) \<and>
   (\<exists>c' new. handleMindsetAnswer latin1_case 5 (lit ''b'') (fst hello_config) = Inr (c', new) \<and>
      mindsetAnswers (assessmentState c') (lit ''q2'') = Some (lit ''B''))"
proof -
  have r: "reachable latin1_case (fst hello_config, snd hello_config)"
    using hello_config_reachable by simp
  have f: "mindsetAnswers (assessmentState (fst hello_config)) (lit ''q1'') = Some (lit ''HELLO'') \<and>
      questions (assessmentState (fst hello_config)) = Some sample_questions \<and>
      currentQuestion (assessmentState (fst hello_config)) = 1 \<and>
      qid (sample_questions ! 1) = lit ''q2'' \<and> toUpperCase latin1_case (lit ''b'') = lit ''B''"
    by code_simp
  then have m: "lit ''HELLO'' \<in> ran (mindsetAnswers (assessmentState (fst hello_config)))"
    by (auto simp: ran_def)
  have i: "questions (assessmentState (fst hello_config)) = Some sample_questions \<and>
      currentQuestion (assessmentState (fst hello_config)) < length sample_questions"
    using f by (simp add: sample_questions_def)
  note inst = stored_answers_upper_case
    [where rt = latin1_case and s = "fst hello_config" and ts = "snd hello_config"
       and c = "fst hello_config" and qs = sample_questions and t = 5 and answer = "lit ''b''"
       and t' = 6]
  from inst r m have "\<exists>inp. trim inp \<noteq> [] \<and> lit ''HELLO'' = toUpperCase latin1_case inp"
    by blast
  moreover from inst i
  have "\<exists>c' new. handleMindsetAnswer latin1_case 5 (lit ''b'') (fst hello_config) = Inr (c', new) \<and>
      mindsetAnswers (assessmentState c') (lit ''q2'') = Some (lit ''B'')"
    using f by auto
  ultimately show ?thesis using hello_config_reachable f by simp
qed

text \<open>
  C9 as first stated fails: the widget reaches a configuration in which the value
  stored for the first question is HELLO, which is no option letter.
\<close>

theorem stored_answer_not_a_letter:
  "reachable latin1_case hello_config \<and>
   mindsetAnswers (assessmentState (fst hello_config)) (lit ''q1'') = Some (lit ''HELLO'') \<and>
   lit ''HELLO'' \<notin> set option_letters"
proof -
  have "mindsetAnswers (assessmentState (fst hello_config)) (lit ''q1'') = Some (lit ''HELLO'') \<and>
   lit ''HELLO'' \<notin> set option_letters"
    by code_simp
  with hello_config_reachable show ?thesis by simp
qed

section \<open>Properties of the quiz modal\<close>

subsection \<open>Outcomes of the session client\<close>






subsection \<open>Requests in flight\<close>

lemma settle_new:
  "settle tk rep s = Some (s', al, new) \<Longrightarrow>
     new = [] \<or> (length new = 1 \<and> quizLoading s' = quizLoading s)"
  by (cases "(tk, rep, s)" rule: settle.cases)
    (auto simp: startQuiz_resume_def submitAnswer_resume_def submitAnswer_results_def
      split: sum.splits if_splits option.splits)

lemma one_in_flight_step:
  assumes "one_in_flight c" and "quiz_step e c = Some c'"
  shows "one_in_flight c'"
proof (cases c)
  case (Pair s ts)
  show ?thesis
  proof (cases e)
    case (Change_formData f)
    with assms Pair show ?thesis by (auto simp: one_in_flight_def split: if_splits)
  next
    case Click_startQuiz
    with assms Pair show ?thesis
      by (auto simp: one_in_flight_def startQuiz_def split: if_splits)
  next
    case (Click_option i)
    with assms Pair show ?thesis by (auto simp: one_in_flight_def split: if_splits)
  next
    case Click_submit
    with assms Pair show ?thesis
      by (auto simp: one_in_flight_def submitAnswer_def split: if_splits option.splits)
  next
    case (Settle i rep)
    with assms Pair obtain s' al new where
      st: "i < length ts" "settle (ts ! i) rep s = Some (s', al, new)"
        "c' = (s', take i ts @ drop (Suc i) ts @ new)"
      by (auto split: if_splits option.splits)
    from assms(1) Pair st(1) have ts: "length ts = 1" "i = 0" "quizLoading s"
      by (auto simp: one_in_flight_def)
    from settle_new [OF st(2)] ts st(3) show ?thesis
      by (auto simp: one_in_flight_def)
  qed
qed

lemma quiz_reachable_one_in_flight: "quiz_reachable c \<Longrightarrow> one_in_flight c"
proof (induction rule: quiz_reachable.induct)
  case quiz_init
  show ?case by (simp add: one_in_flight_def)
next
  case (quiz_next c e c')
  then show ?case by (blast intro: one_in_flight_step)
qed

lemma one_in_flight_results: "quiz_reachable (q, ts) \<Longrightarrow> length ts \<le> 1 \<and> (ts \<noteq> [] \<longrightarrow> quizLoading q)"
  using quiz_reachable_one_in_flight [of "(q, ts)"] by (simp add: one_in_flight_def)

text \<open>
  C5, as amended. When the answer response says completed, \<open>submitAnswer\<close> goes on to
  exactly one results request, and a whole run of it issues the answer request and that
  one results request. Its button is disabled while \<open>loading\<close> is set: in every
  configuration the modal reaches through its buttons at most one request is in flight,
  \<open>loading\<close> is set while one is, and while \<open>loading\<close> is set neither the submit nor the
  start button does anything. \<open>sendMessage\<close> of the chat widget checks \<open>loading\<close> itself.
\<close>

theorem one_results_fetch_per_submission:
  "(selectedAnswer s = Some a \<and> checked_json Http_error ra = Inr done \<and> completed done = Some True \<longrightarrow>
      snd (snd (submitAnswer_run ra rr s)) =
        [Post_quiz_answer a (questionNum s) (sessionId s), Get_quiz_results (sessionId s)] \<and>
      snd (snd (submitAnswer_resume sid ra s)) = [Await_quiz_results sid]) \<and>
   (quiz_reachable (q, ts) \<longrightarrow>
      length ts \<le> 1 \<and> (ts \<noteq> [] \<longrightarrow> quizLoading q) \<and>
      (quizLoading q \<longrightarrow>
         quiz_step Click_submit (q, ts) = None \<and> quiz_step Click_startQuiz (q, ts) = None)) \<and>
   (loading c \<longrightarrow> sendMessage rt t t' c = Inr (c, []))"
proof (intro conjI impI)
  assume h: "selectedAnswer s = Some a \<and> checked_json Http_error ra = Inr done \<and> completed done = Some True"
  then show "snd (snd (submitAnswer_run ra rr s)) =
        [Post_quiz_answer a (questionNum s) (sessionId s), Get_quiz_results (sessionId s)]"
    by (simp add: submitAnswer_run_def submitAnswer_def submitAnswer_resume_def split: prod.splits)
  from h show "snd (snd (submitAnswer_resume sid ra s)) = [Await_quiz_results sid]"
    by (simp add: submitAnswer_resume_def)
next
  assume r: "quiz_reachable (q, ts)"
  from one_in_flight_results [OF r] show "length ts \<le> 1" by simp
  { assume "ts \<noteq> []"
    with one_in_flight_results [OF r] show "quizLoading q" by simp }
  { assume "quizLoading q"
    then show "quiz_step Click_submit (q, ts) = None" by simp }
  { assume "quizLoading q"
    then show "quiz_step Click_startQuiz (q, ts) = None" by simp }
next
  assume "loading c"
  then show "sendMessage rt t t' c = Inr (c, [])" by (simp add: sendMessage_def)
qed

theorem one_results_fetch_per_submission_witness:
  "snd (snd (submitAnswer_run sample_completed (Fetch_rejected (lit ''offline'')) sample_quiz)) =
     [Post_quiz_answer 2 5 (Some (lit ''s1'')), Get_quiz_results (Some (lit ''s1''))] \<and>
   quiz_reachable (initial_quiz\<lparr>quizLoading := True\<rparr>, [Await_quiz_start (formData initial_quiz)]) \<and>
   quiz_step Click_startQuiz
     (initial_quiz\<lparr>quizLoading := True\<rparr>, [Await_quiz_start (formData initial_quiz)]) = None \<and>
   sendMessage latin1_case 1 2 ((sample_chat Mindset 0 (lit ''a''))\<lparr>loading := True\<rparr>) =
     Inr ((sample_chat Mindset 0 (lit ''a''))\<lparr>loading := True\<rparr>, [])"
proof -
  have h: "selectedAnswer sample_quiz = Some 2 \<and>
      checked_json Http_error sample_completed = Inr \<lparr>completed = Some True, next_question = None\<rparr> \<and>
      completed \<lparr>completed = Some True, next_question = None\<rparr> = Some True"
    by (simp add: sample_quiz_def sample_completed_def)
  have q: "questionNum sample_quiz = 5" "sessionId sample_quiz = Some (lit ''s1'')"
    by (simp_all add: sample_quiz_def)
  have "quiz_step Click_startQuiz (initial_quiz, []) =
      Some (initial_quiz\<lparr>quizLoading := True\<rparr>, [Await_quiz_start (formData initial_quiz)])"
    by (simp add: startQuiz_def initial_quiz_def)
  with quiz_init have r: "quiz_reachable
      (initial_quiz\<lparr>quizLoading := True\<rparr>, [Await_quiz_start (formData initial_quiz)])"
    by (rule quiz_next)
  have l: "loading ((sample_chat Mindset 0 (lit ''a''))\<lparr>loading := True\<rparr>)" by simp
  show ?thesis
    using one_results_fetch_per_submission
      [where s = sample_quiz and a = 2 and ra = sample_completed
         and ?done = "\<lparr>completed = Some True, next_question = None\<rparr>"
         and rr = "Fetch_rejected (lit ''offline'')" and q = "initial_quiz\<lparr>quizLoading := True\<rparr>"
         and ts = "[Await_quiz_start (formData initial_quiz)]"
         and c = "(sample_chat Mindset 0 (lit ''a''))\<lparr>loading := True\<rparr>" and t = 1 and t' = 2
         and rt = latin1_case] h r l
    by (simp add: q)
qed

text \<open>
  C5 as first stated fails in the chat widget: not every handler looks at \<open>loading\<close>
  before its request. In the run \<open>race_events\<close> the timer starts \<open>showDomainSelection\<close>
  while the request for the domain questions is on its way, so two requests are in
  flight; and when the first of them settles \<open>loading\<close> is cleared with the other still
  in flight.
\<close>

theorem two_requests_in_flight:
  "reachable latin1_case (race_config 7) \<and>
   map in_flight (snd (race_config 7)) = [False, True, True] \<and>
   reachable latin1_case (race_config 8) \<and>
   map in_flight (snd (race_config 8)) = [False, True, False] \<and>
   \<not> loading (fst (race_config 8))"
proof -
  have "map in_flight (snd (race_config 7)) = [False, True, True] \<and>
   map in_flight (snd (race_config 8)) = [False, True, False] \<and>
   \<not> loading (fst (race_config 8))"
    by code_simp
  with race_config_reachable show ?thesis by simp
qed

section \<open>Properties of both widgets\<close>

subsection \<open>No submission without an answer, and one question at a time\<close>

lemma asked_unanswered_one:
  assumes "answered_before a"
  shows "length (asked_unanswered a) \<le> 1"
proof (cases "(phase a = Some Mindset \<or> phase a = Some Domain_test) \<and> questions a \<noteq> None")
  case False
  then show ?thesis by (auto simp: asked_unanswered_def)
next
  case True
  then obtain qs where qs: "questions a = Some qs" by auto
  let ?n = "currentQuestion a"
  from assms True qs have old: "filter (\<lambda>q. phase_answers a (qid q) = None) (take ?n qs) = []"
    by (auto simp: answered_before_def filter_empty_conv)
  have "take (Suc ?n) qs = take ?n qs @ (if ?n < length qs then [qs ! ?n] else [])"
    by (simp add: take_Suc_conv_app_nth)
  with old True qs show ?thesis by (simp add: asked_unanswered_def)
qed

lemma take_Suc_answered:
  assumes "\<forall>q \<in> set (take n qs). m (qid q) \<noteq> None" and "n < length qs"
  shows "\<forall>q \<in> set (take (Suc n) qs). (m(qid (qs ! n) \<mapsto> v)) (qid q) \<noteq> None"
  using assms by (auto simp: take_Suc_conv_app_nth)

lemma handleMindsetAnswer_answered:
  assumes "answered_before (assessmentState s)" and "phase (assessmentState s) = Some Mindset"
    and "handleMindsetAnswer rt t answer s = Inr (s', new)"
  shows "answered_before (assessmentState s')"
proof -
  let ?a = "assessmentState s"
  from assms(3) obtain qs where qs: "questions ?a = Some qs" "currentQuestion ?a < length qs"
    by (auto simp: handleMindsetAnswer_def Let_def split: option.splits if_splits)
  from assms(1,2) qs have "\<forall>q \<in> set (take (currentQuestion ?a) qs). mindsetAnswers ?a (qid q) \<noteq> None"
    by (simp add: answered_before_def phase_answers_def)
  from take_Suc_answered [OF this qs(2)]
  have new_map: "\<forall>q \<in> set (take (Suc (currentQuestion ?a)) qs).
      ((mindsetAnswers ?a)(qid (qs ! currentQuestion ?a) \<mapsto> toUpperCase rt answer)) (qid q) \<noteq> None" .
  show ?thesis
  proof (cases "currentQuestion ?a + 1 < length qs")
    case True
    with assms(3) qs have "assessmentState s' =
        ?a\<lparr>currentQuestion := currentQuestion ?a + 1,
            mindsetAnswers := (mindsetAnswers ?a)(qid (qs ! currentQuestion ?a) \<mapsto> toUpperCase rt answer)\<rparr>"
      by (auto simp: handleMindsetAnswer_def Let_def)
    with new_map assms(2) qs(1) show ?thesis
      by (simp add: answered_before_def phase_answers_def)
  next
    case False
    with assms(3) qs have "phase (assessmentState s') = Some Domain_selection"
      by (auto simp: handleMindsetAnswer_def Let_def)
    then show ?thesis by (simp add: answered_before_def)
  qed
qed

lemma handleDomainAnswer_answered:
  assumes "answered_before (assessmentState s)" and "phase (assessmentState s) = Some Domain_test"
    and "handleDomainAnswer rt t t' answer s = Inr (s', new)"
  shows "answered_before (assessmentState s')"
proof -
  let ?a = "assessmentState s"
  from assms(3) obtain qs where qs: "questions ?a = Some qs" "currentQuestion ?a < length qs"
    by (auto simp: handleDomainAnswer_def Let_def split: option.splits if_splits)
  from assms(1,2) qs
  have old: "\<forall>q \<in> set (take (currentQuestion ?a) qs). domainAnswers ?a (qid q) \<noteq> None"
    by (simp add: answered_before_def phase_answers_def)
  from take_Suc_answered [OF this qs(2)]
  have new_map: "\<forall>q \<in> set (take (Suc (currentQuestion ?a)) qs).
      ((domainAnswers ?a)(qid (qs ! currentQuestion ?a) \<mapsto> toUpperCase rt answer)) (qid q) \<noteq> None" .
  show ?thesis
  proof (cases "currentQuestion ?a + 1 < length qs")
    case True
    with assms(3) qs have "assessmentState s' =
        ?a\<lparr>currentQuestion := currentQuestion ?a + 1,
            domainAnswers := (domainAnswers ?a)(qid (qs ! currentQuestion ?a) \<mapsto> toUpperCase rt answer)\<rparr>"
      by (auto simp: handleDomainAnswer_def Let_def)
    with new_map assms(2) qs(1) show ?thesis
      by (simp add: answered_before_def phase_answers_def)
  next
    case False
    with assms(3) qs have "assessmentState s' =
        ?a\<lparr>domainAnswers := (domainAnswers ?a)(qid (qs ! currentQuestion ?a) \<mapsto> toUpperCase rt answer)\<rparr>"
      by (auto simp: handleDomainAnswer_def submitCompleteAssessment_def Let_def)
    moreover from new_map
    have "\<forall>q \<in> set (take (currentQuestion ?a) qs).
      ((domainAnswers ?a)(qid (qs ! currentQuestion ?a) \<mapsto> toUpperCase rt answer)) (qid q) \<noteq> None"
      by (meson in_set_takeD le_SucI order_refl set_take_subset_set_take subsetD)
    ultimately show ?thesis using assms(2) qs(1)
      by (simp add: answered_before_def phase_answers_def)
  qed
qed

lemma sendMessage_answered:
  assumes "answered_before (assessmentState s)" and "sendMessage rt t t' s = Inr (s', new)"
  shows "answered_before (assessmentState s')"
  using assms(2)
proof (cases rule: sendMessage_cases)
  case (mindset s1)
  with handleMindsetAnswer_answered [OF assms(1), of rt t "input s" s1 new] show ?thesis by simp
next
  case (selection s1)
  with handleDomainSelection_assessment assms(1) show ?thesis by fastforce
next
  case (test s1)
  with handleDomainAnswer_answered [OF assms(1), of rt t t' "input s" s1 new] show ?thesis by simp
qed (use assms(1) in simp_all)

lemma run_task_answered:
  assumes "answered_before (assessmentState s)" and "run_task t tk rep s = Some (s', new)"
  shows "answered_before (assessmentState s')"
  using assms
  by (cases "(t, tk, rep, s)" rule: run_task.cases)
    (auto simp: startAssessment_resume_def askQuestion_def showDomainSelection_def
      showDomainSelection_resume_def handleDomainSelection_resume_def
      submitCompleteAssessment_resume_def sendMessage_resume_def answered_before_def
      initial_assessment_def Let_def split: option.splits if_splits sum.splits)

lemma reachable_answered: "reachable rt c \<Longrightarrow> answered_before (assessmentState (fst c))"
proof (induction rule: reachable.induct)
  case (reachable_init t)
  show ?case by (simp add: initial_chat_def initial_assessment_def answered_before_def)
next
  case (reachable_step c e c')
  obtain s ts s' ts' where c: "c = (s, ts)" "c' = (s', ts')" by (cases c, cases c')
  from reachable_step(2) [unfolded c] show ?case
  proof (cases rule: chat_step_cases)
    case quiet
    with reachable_step(3) c show ?thesis by simp
  next
    case (send t t' new)
    with sendMessage_answered reachable_step(3) c show ?thesis by fastforce
  next
    case clear
    with c show ?thesis by (simp add: initial_assessment_def answered_before_def)
  next
    case (task i t rep new)
    with run_task_answered reachable_step(3) c show ?thesis by fastforce
  qed
qed

lemma settle_selection:
  assumes "selection_kept (s, [tk])" and "settle tk rep s = Some (s', al, new)"
  shows "selection_kept (s', new)"
  using assms
  by (cases "(tk, rep, s)" rule: settle.cases)
    (auto simp: startQuiz_resume_def submitAnswer_resume_def submitAnswer_results_def
      selection_kept_def selection_fits_def
      split: sum.splits if_splits option.splits)

lemma quiz_step_selection:
  assumes "one_in_flight c" and "selection_kept c" and "quiz_step e c = Some c'"
  shows "selection_kept c'"
proof (cases c)
  case (Pair s ts)
  show ?thesis
  proof (cases e)
    case (Change_formData f)
    with assms Pair show ?thesis
      by (auto simp: selection_kept_def selection_fits_def split: if_splits)
  next
    case Click_startQuiz
    with assms Pair show ?thesis
      by (auto simp: selection_kept_def selection_fits_def startQuiz_def split: if_splits)
  next
    case (Click_option i)
    with assms Pair show ?thesis
      by (auto simp: selection_kept_def selection_fits_def quiz_shown_def split: if_splits)
  next
    case Click_submit
    with assms Pair show ?thesis
      by (auto simp: selection_kept_def selection_fits_def submitAnswer_def quiz_shown_def
          split: if_splits option.splits)
  next
    case (Settle i rep)
    with assms(3) Pair obtain s' al new where
      st: "i < length ts" "settle (ts ! i) rep s = Some (s', al, new)"
        "c' = (s', take i ts @ drop (Suc i) ts @ new)"
      by (auto split: if_splits option.splits)
    from assms(1) Pair st(1) have len: "length ts = 1" and i: "i = 0"
      by (auto simp: one_in_flight_def)
    then obtain tk where ts: "ts = [tk]" by (cases ts) auto
    with assms(2) Pair have "selection_kept (s, [tk])" by simp
    from settle_selection [OF this] st(2) ts i have "selection_kept (s', new)" by simp
    moreover from ts i st(3) have "c' = (s', new)" by simp
    ultimately show ?thesis by simp
  qed
qed

lemma quiz_reachable_selection: "quiz_reachable c \<Longrightarrow> selection_kept c"
proof (induction rule: quiz_reachable.induct)
  case quiz_init
  show ?case by (simp add: selection_kept_def selection_fits_def initial_quiz_def)
next
  case (quiz_next c e c')
  with quiz_reachable_one_in_flight show ?case by (blast intro: quiz_step_selection)
qed

text \<open>
  C8. With no option selected, \<open>submitAnswer\<close> changes nothing and issues no request, and so
  does a whole run of it; with an input that is empty once trimmed, \<open>sendMessage\<close>
  changes nothing and dispatches no handler. In every configuration the modal reaches
  it holds at most one question for an answer, and a selection, when there is one, is
  an option of that question. In every configuration the chat widget reaches, of the
  questions put so far in the running phase at most one has no answer recorded: every
  question before the current index has one.
\<close>

theorem no_empty_submission:
  "(selectedAnswer q = None \<longrightarrow>
      submitAnswer q = (q, [], []) \<and> submitAnswer_run ra rr q = (q, [], [])) \<and>
   (trim (input s) = [] \<longrightarrow> sendMessage rt t t' s = Inr (s, [])) \<and>
   (quiz_reachable (m, ms) \<longrightarrow> length (quiz_unanswered m) \<le> 1 \<and> selection_fits m) \<and>
   (reachable rt (c, ts) \<longrightarrow> length (asked_unanswered (assessmentState c)) \<le> 1)"
proof (intro conjI impI)
  assume "quiz_reachable (m, ms)"
  from quiz_reachable_selection [OF this] show "selection_fits m"
    by (simp add: selection_kept_def)
next
  assume "reachable rt (c, ts)"
  from reachable_answered [OF this] have "answered_before (assessmentState c)" by simp
  then show "length (asked_unanswered (assessmentState c)) \<le> 1" by (rule asked_unanswered_one)
qed (simp_all add: submitAnswer_def submitAnswer_run_def sendMessage_def quiz_unanswered_def
      split: option.splits)

theorem no_empty_submission_witness:
  "submitAnswer_run (Fetch_rejected (lit ''x'')) (Fetch_rejected (lit ''y'')) initial_quiz =
     (initial_quiz, [], []) \<and>
   sendMessage latin1_case 1 2 (sample_chat Mindset 0 [0x20, 0xA0]) =
     Inr (sample_chat Mindset 0 [0x20, 0xA0], []) \<and>
   quiz_reachable (initial_quiz, []) \<and> length (quiz_unanswered initial_quiz) \<le> 1 \<and>
   reachable latin1_case hello_config \<and>
   asked_unanswered (assessmentState (fst hello_config)) = [last sample_questions]"
proof -
  have a: "selectedAnswer initial_quiz = None" by (simp add: initial_quiz_def)
  have b: "trim (input (sample_chat Mindset 0 [0x20, 0xA0])) = []"
    unfolding sample_chat_def by code_simp
  have r: "reachable latin1_case (fst hello_config, snd hello_config)"
    using hello_config_reachable by simp
  note inst = no_empty_submission
      [where q = initial_quiz and ra = "Fetch_rejected (lit ''x'')"
         and rr = "Fetch_rejected (lit ''y'')" and s = "sample_chat Mindset 0 [0x20, 0xA0]"
         and t = 1 and t' = 2 and rt = latin1_case and m = initial_quiz and ms = "[]"
         and c = "fst hello_config" and ts = "snd hello_config"]
  from inst a b quiz_init r
  have "submitAnswer_run (Fetch_rejected (lit ''x'')) (Fetch_rejected (lit ''y'')) initial_quiz =
     (initial_quiz, [], []) \<and>
   sendMessage latin1_case 1 2 (sample_chat Mindset 0 [0x20, 0xA0]) =
     Inr (sample_chat Mindset 0 [0x20, 0xA0], []) \<and>
   length (quiz_unanswered initial_quiz) \<le> 1 \<and>
   length (asked_unanswered (assessmentState (fst hello_config))) \<le> 1"
    by simp
  moreover have "asked_unanswered (assessmentState (fst hello_config)) = [last sample_questions]"
    by code_simp
  ultimately show ?thesis using quiz_init hello_config_reachable by simp
qed

end
